theory Spec2Isabelle
  imports Complex_Main "HOL-Library.Sublist" "HOL-Library.Log_Nat"
begin

section \<open>Thinning of the expiration dates (OpcionesTEST.py, lines 76-82)\<close>

text \<open>
  The source:
  \<^verbatim>\<open>
  fechas_a_mostrar = list(todas_las_fechas[:10])
  if len(todas_las_fechas) > 10:
      fechas_lejanas = todas_las_fechas[10:]
      paso = max(1, len(fechas_lejanas) // 10)
      for i in range(0, len(fechas_lejanas), paso):
          if len(fechas_a_mostrar) < 20:
              fechas_a_mostrar.append(fechas_lejanas[i])
  \<close>
  \<open>range_step i n p\<close> is Python's \<open>range(i, n, p)\<close> for a positive step. Python raises
  ValueError for a step of 0; the source never passes one (\<open>paso\<close> is at least 1), and the
  model gives the empty range there.
\<close>

function range_step :: "nat \<Rightarrow> nat \<Rightarrow> nat \<Rightarrow> nat list" where
  "range_step i n p = (if i < n \<and> 0 < p then i # range_step (i + p) n p else [])"
  by pat_completeness auto
termination
  by (relation "measure (\<lambda>(i, n, p). n - i)") auto

declare range_step.simps [simp del]

text \<open>
  The \<open>for\<close> loop, with the loop variable \<open>i\<close> and the list built so far as arguments:
  one call is one iteration.
\<close>

function fechas_loop :: "'a list \<Rightarrow> nat \<Rightarrow> nat \<Rightarrow> 'a list \<Rightarrow> 'a list" where
  "fechas_loop fechas_lejanas paso i fechas_a_mostrar =
     (if i < length fechas_lejanas \<and> 0 < paso
      then fechas_loop fechas_lejanas paso (i + paso)
             (if length fechas_a_mostrar < 20
              then fechas_a_mostrar @ [fechas_lejanas ! i]
              else fechas_a_mostrar)
      else fechas_a_mostrar)"
  by pat_completeness auto
termination
  by (relation "measure (\<lambda>(l, p, i, acc). length l - i)") auto

declare fechas_loop.simps [simp del]

definition fechas_a_mostrar :: "'a list \<Rightarrow> 'a list" where
  "fechas_a_mostrar todas_las_fechas =
     (let primeras = take 10 todas_las_fechas
      in if 10 < length todas_las_fechas
         then (let fechas_lejanas = drop 10 todas_las_fechas;
                   paso = max 1 (length fechas_lejanas div 10)
               in fechas_loop fechas_lejanas paso 0 primeras)
         else primeras)"


section \<open>Candidate strikes (OpcionesTEST.py, lines 63-66)\<close>

text \<open>
  Prices and strikes are Python floats: IEEE 754 double-precision numbers. A finite
  double is modelled by the rational number it denotes, and an arithmetic operation by
  the exact operation followed by rounding to the nearest double, ties to the even
  significand. The two zeros are one value (Python compares them equal). Infinities and
  NaN are outside the model: the operations below on a finite reference strike never
  reach magnitude \<open>2 ^ 1024\<close>.

  \<open>exponent2 q\<close> is the binary exponent of a positive rational: the \<open>e\<close> with
  \<open>2 ^ e \<le> q < 2 ^ (e + 1)\<close>.
\<close>

definition exponent2 :: "rat \<Rightarrow> int" where
  "exponent2 q =
     (let (a, b) = quotient_of q; d = bitlen a - bitlen b
      in if 2 powi d \<le> q then d else d - 1)"

text \<open>
  Rounding half to even to an integer, as IEEE 754 rounds a significand and as Python's
  \<open>round\<close> rounds a decimal digit.
\<close>

definition round_half_even :: "rat \<Rightarrow> int" where
  "round_half_even x =
     (let f = \<lfloor>x\<rfloor>; d = x - of_int f
      in if d < 1 / 2 then f
         else if 1 / 2 < d then f + 1
         else if even f then f else f + 1)"

text \<open>
  The nearest double: a significand of 53 bits, and no exponent of the last bit below
  \<open>- 1074\<close> (the subnormal numbers).
\<close>

definition to_double :: "rat \<Rightarrow> rat" where
  "to_double q =
     (if q = 0 then 0
      else (let p = max (exponent2 \<bar>q\<bar> - 52) (- 1074)
            in of_int (round_half_even (q / 2 powi p)) * 2 powi p))"

definition is_double :: "rat \<Rightarrow> bool" where
  "is_double q \<longleftrightarrow> to_double q = q \<and> \<bar>q\<bar> < 2 ^ 1024"

definition float_of_int :: "int \<Rightarrow> rat" where
  "float_of_int k = to_double (of_int k)"

definition fadd :: "rat \<Rightarrow> rat \<Rightarrow> rat" where
  "fadd x y = to_double (x + y)"

definition fmul :: "rat \<Rightarrow> rat \<Rightarrow> rat" where
  "fmul x y = to_double (x * y)"

text \<open>
  Python's \<open>round(x, ndigits)\<close> on a float rounds the exact value of \<open>x\<close> to the closest
  multiple of \<open>10 ^ (- ndigits)\<close>, to the one with an even last digit when two are equally
  close, and returns the double nearest to that decimal.
\<close>

definition round_decimal :: "rat \<Rightarrow> int \<Rightarrow> rat" where
  "round_decimal x ndigits =
     (if 0 \<le> ndigits
      then of_int (round_half_even (x * 10 ^ nat ndigits)) / 10 ^ nat ndigits
      else of_int (round_half_even (x / 10 ^ nat (- ndigits))) * 10 ^ nat (- ndigits))"

definition py_round :: "rat \<Rightarrow> int \<Rightarrow> rat" where
  "py_round x ndigits = to_double (round_decimal x ndigits)"

text \<open>
  \<^verbatim>\<open>strikes_disponibles = [round(strike_central + (i - 10) * 0.5, 2) for i in range(21)]\<close>
  The integer \<open>i - 10\<close> is converted to a float, multiplied by the float 0.5 and added
  to the reference strike, each in float arithmetic.
\<close>

definition strikes_disponibles :: "rat \<Rightarrow> rat list" where
  "strikes_disponibles strike_central =
     map (\<lambda>i. py_round (fadd strike_central (fmul (float_of_int (int i - 10)) (1 / 2))) 2)
       [0..<21]"

text \<open>
  \<open>st.selectbox(label, options, index)\<close> returns the option at the selected position;
  \<open>index\<close> is the position selected when the user has not touched the widget. With no
  option at that position (an empty list of options) the widget returns \<open>None\<close>.
\<close>

definition selectbox :: "'a list \<Rightarrow> nat \<Rightarrow> 'a option" where
  "selectbox opts index = (if index < length opts then Some (opts ! index) else None)"

section \<open>The provider, the widgets and the log of a run\<close>

text \<open>
  The script is run from top to bottom on every interaction. A run is modelled as a
  function of the provider's answers, the values the widgets return in this run, the
  time of the run and the framework's cache; it yields the log of what was rendered and
  queried, in order, how the run ended, and the cache after the run.

  An exception is a value. The type holds instances of Python's \<open>Exception\<close> class, with
  the text \<open>str(e)\<close>; signals that are not instances of \<open>Exception\<close> (KeyboardInterrupt,
  SystemExit) are outside the model.
\<close>

type_synonym fecha = string

datatype exn = IndexError string | KeyError string | OtherException string

fun message :: "exn \<Rightarrow> string" where
  "message (IndexError s) = s"
| "message (KeyError s) = s"
| "message (OtherException s) = s"

fun is_IndexError :: "exn \<Rightarrow> bool" where
  "is_IndexError (IndexError s) = True"
| "is_IndexError (KeyError s) = False"
| "is_IndexError (OtherException s) = False"

text \<open>
  A row of an options-chain table, with the columns the script reads. A price history is
  its \<open>Close\<close> column, one entry per row, so a table is empty exactly when the list is.
\<close>

record option_row =
  contractSymbol :: string
  strike :: rat
  lastPrice :: rat
  bid :: rat
  ask :: rat
  impliedVolatility :: rat

datatype period = P1d | P1mo

text \<open>
  The market-data provider: \<open>Ticker(s).history(period=p)\<close>, \<open>Ticker(s).options\<close> and
  \<open>Ticker(s).option_chain(fecha)\<close>, which gives the calls and the puts. Each call returns
  or raises.
\<close>

record provider =
  history :: "string \<Rightarrow> period \<Rightarrow> exn + rat list"
  options :: "string \<Rightarrow> exn + fecha list"
  option_chain :: "string \<Rightarrow> fecha \<Rightarrow> exn + option_row list \<times> option_row list"

datatype query = History string period | Options string | OptionChain string fecha

datatype heading =
  ElegirStrike | ElegirVencimiento | ElegirTipo | MetricasClave | HistorialDePrecio

datatype metric = UltimoPrecio | Bid | Ask | VolatilidadImplicita

datatype event =
    Query query
  | SetPageConfig
  | Title
  | TextInput
  | ErrorTickerNoValido string
  | SuccessPrecio string rat
  | Columns nat
  | Subheader heading
  | NumberInput rat
  | SelectboxStrike "rat list"
  | WarningSinOpciones string
  | SelectboxFecha "fecha list"
  | SelectboxTipo "string list"
  | Button
  | InfoBuscando "string option" string fecha "rat option"
  | WarningSinCoincidencia
  | SuccessEncontrada
  | Dataframe "option_row list"
  | Metric metric rat
  | LineChart "rat list"
  | WarningSinHistorial
  | ErrorOpcion string
  | Markdown
  | Write

datatype outcome = Completed | Stopped | Uncaught exn

text \<open>
  The values the widgets return in one run: the text typed into the text input, the
  number typed into the number input (\<open>None\<close> when it is left at its default), the
  positions selected in the three select boxes (10, 0 and 0 when untouched) and whether
  the button was pressed.
\<close>

record inputs =
  ticker_text :: string
  strike_input :: "rat option"
  strike_index :: nat
  fecha_index :: nat
  tipo_index :: nat
  button :: bool

subsection \<open>The cached fetch functions (lines 19-38)\<close>

text \<open>
  \<^verbatim>\<open>@st.cache_data(ttl=3600)\<close> stores the value a decorated function returns under a key
  made of the function's arguments, leaving out every parameter whose name begins with
  an underscore, and serves the stored value, without running the function, to the
  calls with the same key that come less than \<open>ttl\<close> seconds after it was stored. A call
  that raises stores nothing. Each decorated function has a store of its own. The time
  of a call is a number of seconds.
\<close>

type_synonym ('k, 'v) memo = "'k \<rightharpoonup> 'v \<times> nat"

record cache =
  chain_cache :: "(fecha, option_row list \<times> option_row list) memo"
  history_cache :: "(string, rat list) memo"

definition cache_data ::
  "nat \<Rightarrow> nat \<Rightarrow> ('k, 'v) memo \<Rightarrow> 'k \<Rightarrow> (exn + 'v) \<times> event list
     \<Rightarrow> ((exn + 'v) \<times> event list) \<times> ('k, 'v) memo" where
  "cache_data ttl now memo key body =
     (let run = (case body of
                   (Inl e, evs) \<Rightarrow> ((Inl e, evs), memo)
                 | (Inr v, evs) \<Rightarrow> ((Inr v, evs), memo(key \<mapsto> (v, now))))
      in case memo key of
           None \<Rightarrow> run
         | Some (v, stored) \<Rightarrow> if now < stored + ttl then ((Inr v, []), memo) else run)"

text \<open>
  \<^verbatim>\<open>
  def get_ticker_object(ticker_simbolo):
      return yf.Ticker(ticker_simbolo)
  \<close>
  A ticker object is identified with its symbol; making one queries nothing. This
  function carries no decorator.
\<close>

definition get_ticker_object :: "string \<Rightarrow> string" where
  "get_ticker_object ticker_simbolo = ticker_simbolo"

text \<open>
  \<^verbatim>\<open>
  @st.cache_data(ttl=3600)
  def get_option_dataframes(_ticker, fecha):
      chain = _ticker.option_chain(fecha)
      return chain.calls, chain.puts
  \<close>
  The first parameter's name begins with an underscore: the key is \<open>fecha\<close> alone.
\<close>

definition get_option_dataframes_uncached ::
  "provider \<Rightarrow> string \<Rightarrow> fecha \<Rightarrow> (exn + option_row list \<times> option_row list) \<times> event list" where
  "get_option_dataframes_uncached prov ticker fecha =
     (option_chain prov ticker fecha, [Query (OptionChain ticker fecha)])"

definition get_option_dataframes ::
  "provider \<Rightarrow> nat \<Rightarrow> (fecha, option_row list \<times> option_row list) memo \<Rightarrow> string \<Rightarrow> fecha
     \<Rightarrow> ((exn + option_row list \<times> option_row list) \<times> event list)
        \<times> (fecha, option_row list \<times> option_row list) memo" where
  "get_option_dataframes prov now memo ticker fecha =
     cache_data 3600 now memo fecha (get_option_dataframes_uncached prov ticker fecha)"

text \<open>
  \<^verbatim>\<open>
  @st.cache_data(ttl=3600)
  def get_option_history(contract_symbol):
      try:
          option_ticker = yf.Ticker(contract_symbol)
          return option_ticker.history(period="1mo")
      except Exception:
          return pd.DataFrame()
  \<close>
\<close>

definition get_option_history_uncached ::
  "provider \<Rightarrow> string \<Rightarrow> (exn + rat list) \<times> event list" where
  "get_option_history_uncached prov contract_symbol =
     (case history prov contract_symbol P1mo of
        Inl e \<Rightarrow> Inr []
      | Inr history_df \<Rightarrow> Inr history_df,
      [Query (History contract_symbol P1mo)])"

definition get_option_history ::
  "provider \<Rightarrow> nat \<Rightarrow> (string, rat list) memo \<Rightarrow> string
     \<Rightarrow> ((exn + rat list) \<times> event list) \<times> (string, rat list) memo" where
  "get_option_history prov now memo contract_symbol =
     cache_data 3600 now memo contract_symbol (get_option_history_uncached prov contract_symbol)"

subsection \<open>The ticker (lines 43-55)\<close>

text \<open>
  \<open>str.upper()\<close> on the letters \<open>a\<close> to \<open>z\<close>; a \<open>char\<close> is a byte, and the other bytes are
  left as they are.
\<close>

definition upper_char :: "char \<Rightarrow> char" where
  "upper_char ch =
     (let n = (of_char ch :: nat) in if 97 \<le> n \<and> n \<le> 122 then char_of (n - 32) else ch)"

definition upper :: "string \<Rightarrow> string" where
  "upper s = map upper_char s"

text \<open>
  \<^verbatim>\<open>precio_actual = accion.history(period="1d")['Close'].iloc[-1]\<close>:
  the last close, and IndexError when the history has no row.
\<close>

definition precio_actual :: "provider \<Rightarrow> string \<Rightarrow> exn + rat" where
  "precio_actual prov accion =
     (case history prov accion P1d of
        Inl e \<Rightarrow> Inl e
      | Inr closes \<Rightarrow>
          if closes = [] then Inl (IndexError ''single positional indexer is out-of-bounds'')
          else Inr (last closes))"

subsection \<open>The expiration date (lines 69-84)\<close>

definition vencimiento :: "string \<Rightarrow> fecha list \<Rightarrow> nat \<Rightarrow> event list \<times> fecha option" where
  "vencimiento ticker_simbolo todas_las_fechas indice =
     (if todas_las_fechas = [] then ([WarningSinOpciones ticker_simbolo], None)
      else (let fechas = fechas_a_mostrar todas_las_fechas
            in ([SelectboxFecha fechas], selectbox fechas indice)))"

subsection \<open>The search (lines 92-133)\<close>

text \<open>\<^verbatim>\<open>opcion_seleccionada = datos[datos['strike'] == strike_elegido]\<close>\<close>

definition opcion_seleccionada :: "option_row list \<Rightarrow> rat option \<Rightarrow> option_row list" where
  "opcion_seleccionada datos strike_elegido =
     filter (\<lambda>fila. Some (strike fila) = strike_elegido) datos"

text \<open>Lines 125-129: the chart of the \<open>Close\<close> column, or a warning.\<close>

definition mostrar_historial :: "rat list \<Rightarrow> event list" where
  "mostrar_historial history_df =
     (if history_df \<noteq> [] then [LineChart history_df] else [WarningSinHistorial])"

text \<open>
  The body of the \<open>try\<close> (lines 96-129): what it rendered and queried, and the exception
  it raised, if any.
\<close>

definition buscar_body ::
  "provider \<Rightarrow> nat \<Rightarrow> cache \<Rightarrow> string \<Rightarrow> fecha \<Rightarrow> string option \<Rightarrow> rat option
     \<Rightarrow> (event list \<times> exn option) \<times> cache" where
  "buscar_body prov now c accion fecha_elegida tipo_opcion_elegido strike_elegido =
     (case get_option_dataframes prov now (chain_cache c) accion fecha_elegida of
        ((Inl e, evs), m) \<Rightarrow> ((evs, Some e), c\<lparr>chain_cache := m\<rparr>)
      | ((Inr (calls, puts), evs), m) \<Rightarrow>
          (let c1 = c\<lparr>chain_cache := m\<rparr>;
               datos = (if tipo_opcion_elegido = Some ''Call'' then calls else puts);
               seleccion = opcion_seleccionada datos strike_elegido
           in case seleccion of
                [] \<Rightarrow> ((evs @ [WarningSinCoincidencia], None), c1)
              | fila # _ \<Rightarrow>
                  (let evs1 = evs @
                         [SuccessEncontrada, Dataframe seleccion,
                          Subheader MetricasClave, Columns 4,
                          Metric UltimoPrecio (lastPrice fila),
                          Metric Bid (bid fila),
                          Metric Ask (ask fila),
                          Metric VolatilidadImplicita (impliedVolatility fila),
                          Subheader HistorialDePrecio]
                   in case get_option_history prov now (history_cache c1) (contractSymbol fila) of
                        ((Inl e, evs2), m2) \<Rightarrow>
                          ((evs1 @ evs2, Some e), c1\<lparr>history_cache := m2\<rparr>)
                      | ((Inr history_df, evs2), m2) \<Rightarrow>
                          ((evs1 @ evs2 @ mostrar_historial history_df, None),
                           c1\<lparr>history_cache := m2\<rparr>))))"

text \<open>
  The \<open>try\<close> with its handler (lines 95-133):
  \<^verbatim>\<open>except Exception as e: st.error(f"... {e}")\<close>
\<close>

definition buscar_opcion ::
  "provider \<Rightarrow> nat \<Rightarrow> cache \<Rightarrow> string \<Rightarrow> fecha \<Rightarrow> string option \<Rightarrow> rat option
     \<Rightarrow> event list \<times> cache" where
  "buscar_opcion prov now c accion fecha_elegida tipo_opcion_elegido strike_elegido =
     (case buscar_body prov now c accion fecha_elegida tipo_opcion_elegido strike_elegido of
        ((evs, None), c') \<Rightarrow> (evs, c')
      | ((evs, Some e), c') \<Rightarrow> (evs @ [ErrorOpcion (message e)], c'))"

subsection \<open>The script\<close>

definition script :: "provider \<Rightarrow> nat \<Rightarrow> inputs \<Rightarrow> cache \<Rightarrow> (event list \<times> outcome) \<times> cache" where
  "script prov now inp c =
     (let cabecera = [SetPageConfig, Title, TextInput];
          pie = [Markdown, Write];
          ticker_simbolo = upper (ticker_text inp)
      in if ticker_simbolo = [] then ((cabecera @ pie, Completed), c)
         else
          (let accion = get_ticker_object ticker_simbolo;
               evs0 = cabecera @ [Query (History accion P1d)]
           in case precio_actual prov accion of
                Inl e \<Rightarrow>
                  if is_IndexError e
                  then ((evs0 @ [ErrorTickerNoValido ticker_simbolo], Stopped), c)
                  else ((evs0, Uncaught e), c)
              | Inr precio \<Rightarrow>
                  (let strike_central =
                         (case strike_input inp of
                            None \<Rightarrow> py_round precio (- 1)
                          | Some v \<Rightarrow> v);
                       strikes = strikes_disponibles strike_central;
                       strike_elegido = selectbox strikes (strike_index inp);
                       evs1 = evs0 @
                         [SuccessPrecio ticker_simbolo precio, Columns 3,
                          Subheader ElegirStrike, NumberInput strike_central,
                          SelectboxStrike strikes,
                          Subheader ElegirVencimiento, Query (Options accion)]
                   in case options prov accion of
                        Inl e \<Rightarrow> ((evs1, Uncaught e), c)
                      | Inr todas_las_fechas \<Rightarrow>
                          (let (evs2, fecha_elegida) =
                                 vencimiento ticker_simbolo todas_las_fechas (fecha_index inp);
                               tipos = [''Call'', ''Put''];
                               tipo_opcion_elegido = selectbox tipos (tipo_index inp);
                               evs3 = evs1 @ evs2 @
                                 [Subheader ElegirTipo, SelectboxTipo tipos, Button]
                           in case fecha_elegida of
                                None \<Rightarrow> ((evs3 @ pie, Completed), c)
                              | Some fecha \<Rightarrow>
                                  if button inp \<and> fecha \<noteq> []
                                  then
                                   (let (evs4, c') =
                                          buscar_opcion prov now c accion fecha
                                            tipo_opcion_elegido strike_elegido
                                    in ((evs3 @
                                         [InfoBuscando tipo_opcion_elegido ticker_simbolo
                                            fecha strike_elegido] @ evs4 @ pie,
                                         Completed), c'))
                                  else ((evs3 @ pie, Completed), c)))))"

text \<open>
  The ticker symbol a logged provider query was made for: the one-day price history, the
  expiration dates and the option chain are looked up for a ticker; the one-month
  history is looked up for a contract symbol taken from the chain.
\<close>

fun ticker_consultado :: "event \<Rightarrow> string option" where
  "ticker_consultado (Query (History s P1d)) = Some s"
| "ticker_consultado (Query (Options s)) = Some s"
| "ticker_consultado (Query (OptionChain s f)) = Some s"
| "ticker_consultado ev = None"

section \<open>The run on tables as the provider sends them\<close>

text \<open>
  Above, a table has the provider's schema: every row has its columns, and the prices are
  numbers. That is the setting of what the page shows. The exceptions of the search come
  from tables that are not so: a column is missing, or a cell is not a number. For them
  the tables are modelled as pandas has them. A DataFrame is its columns in order, each
  with its name and its cells; a cell is a number or a string.
\<close>

datatype cell = Num rat | Str string

type_synonym dataframe = "(string \<times> cell list) list"

text \<open>
  \<open>df[name]\<close>: the column, or KeyError; the text of a KeyError is the key in quotes.
\<close>

definition columna :: "dataframe \<Rightarrow> string \<Rightarrow> exn + cell list" where
  "columna df name =
     (case map_of df name of
        None \<Rightarrow> Inl (KeyError ([CHR 0x27] @ name @ [CHR 0x27]))
      | Some col \<Rightarrow> Inr col)"

text \<open>\<open>df.empty\<close>: no column, or no row.\<close>

definition df_empty :: "dataframe \<Rightarrow> bool" where
  "df_empty df = (case df of [] \<Rightarrow> True | (name, col) # _ \<Rightarrow> col = [])"

text \<open>\<open>df[donde]\<close>, for a series \<open>donde\<close> of truth values: the rows at which it holds, in every column.\<close>

definition filas :: "dataframe \<Rightarrow> bool list \<Rightarrow> dataframe" where
  "filas df donde = map (\<lambda>(name, col). (name, map snd (filter fst (zip donde col)))) df"

text \<open>\<open>series.iloc[0]\<close> and \<open>series.iloc[-1]\<close>: IndexError on a series without entries.\<close>

definition iloc_first :: "cell list \<Rightarrow> exn + cell" where
  "iloc_first col =
     (case col of
        [] \<Rightarrow> Inl (IndexError ''single positional indexer is out-of-bounds'')
      | x # _ \<Rightarrow> Inr x)"

definition iloc_last :: "cell list \<Rightarrow> exn + cell" where
  "iloc_last col =
     (if col = [] then Inl (IndexError ''single positional indexer is out-of-bounds'')
      else Inr (last col))"

text \<open>
  A format specification for numbers (\<open>.2f\<close>, \<open>.2%\<close>) in an f-string: applied to a
  string it raises ValueError, an instance of \<open>Exception\<close>. The log keeps the number, not
  its text.
\<close>

definition formato :: "char \<Rightarrow> cell \<Rightarrow> exn + rat" where
  "formato codigo x =
     (case x of
        Num r \<Rightarrow> Inr r
      | Str s \<Rightarrow> Inl (OtherException
          (''Unknown format code '' @ [CHR 0x27, codigo, CHR 0x27]
             @ '' for object of type '' @ [CHR 0x27] @ ''str'' @ [CHR 0x27])))"

record provider_df =
  history_df :: "string \<Rightarrow> period \<Rightarrow> exn + dataframe"
  options_df :: "string \<Rightarrow> exn + fecha list"
  option_chain_df :: "string \<Rightarrow> fecha \<Rightarrow> exn + dataframe \<times> dataframe"

text \<open>The log: the events above, and the tables and charts of cells.\<close>

datatype event_df = Ev event | DataframeDf dataframe | LineChartDf "cell list"

record cache_df =
  chain_cache_df :: "(fecha, dataframe \<times> dataframe) memo"
  history_cache_df :: "(cell, dataframe) memo"

text \<open>
  The memoization of the two fetch functions, as above, over logs of any kind of event.
\<close>

definition cache_data_df ::
  "nat \<Rightarrow> nat \<Rightarrow> ('k, 'v) memo \<Rightarrow> 'k \<Rightarrow> (exn + 'v) \<times> event_df list
     \<Rightarrow> ((exn + 'v) \<times> event_df list) \<times> ('k, 'v) memo" where
  "cache_data_df ttl now memo key body =
     (let run = (case body of
                   (Inl e, evs) \<Rightarrow> ((Inl e, evs), memo)
                 | (Inr v, evs) \<Rightarrow> ((Inr v, evs), memo(key \<mapsto> (v, now))))
      in case memo key of
           None \<Rightarrow> run
         | Some (v, stored) \<Rightarrow> if now < stored + ttl then ((Inr v, []), memo) else run)"

definition get_option_dataframes_df ::
  "provider_df \<Rightarrow> nat \<Rightarrow> (fecha, dataframe \<times> dataframe) memo \<Rightarrow> string \<Rightarrow> fecha
     \<Rightarrow> ((exn + dataframe \<times> dataframe) \<times> event_df list)
        \<times> (fecha, dataframe \<times> dataframe) memo" where
  "get_option_dataframes_df prov now memo ticker fecha =
     cache_data_df 3600 now memo fecha
       (option_chain_df prov ticker fecha, [Ev (Query (OptionChain ticker fecha))])"

text \<open>
  The contract symbol is a cell of the table. \<open>yf.Ticker\<close> of a cell that is not a string
  raises, inside the \<open>try\<close>, before anything is queried.
\<close>

definition get_option_history_df ::
  "provider_df \<Rightarrow> nat \<Rightarrow> (cell, dataframe) memo \<Rightarrow> cell
     \<Rightarrow> ((exn + dataframe) \<times> event_df list) \<times> (cell, dataframe) memo" where
  "get_option_history_df prov now memo contract_symbol =
     cache_data_df 3600 now memo contract_symbol
       (case contract_symbol of
          Str s \<Rightarrow>
            (case history_df prov s P1mo of
               Inl e \<Rightarrow> Inr []
             | Inr h \<Rightarrow> Inr h,
             [Ev (Query (History s P1mo))])
        | Num r \<Rightarrow> (Inr [], []))"

subsection \<open>The statements of the search, one by one\<close>

text \<open>
  \<^verbatim>\<open>opcion_seleccionada = datos[datos['strike'] == strike_elegido]\<close>
  A comparison with \<open>None\<close> holds at no row.
\<close>

definition opcion_seleccionada_df :: "dataframe \<Rightarrow> rat option \<Rightarrow> exn + dataframe" where
  "opcion_seleccionada_df datos strike_elegido =
     (case columna datos ''strike'' of
        Inl e \<Rightarrow> Inl e
      | Inr col \<Rightarrow> Inr (filas datos (map (\<lambda>v. Some v = map_option Num strike_elegido) col)))"

text \<open>\<open>df[name].iloc[0]\<close>\<close>

definition primera :: "dataframe \<Rightarrow> string \<Rightarrow> exn + cell" where
  "primera df name =
     (case columna df name of Inl e \<Rightarrow> Inl e | Inr col \<Rightarrow> iloc_first col)"

text \<open>
  Lines 111-114: four metrics, each read, formatted and rendered before the next is
  read.
\<close>

fun metricas_desde :: "dataframe \<Rightarrow> (metric \<times> string \<times> char) list \<Rightarrow> event_df list \<times> exn option" where
  "metricas_desde df [] = ([], None)"
| "metricas_desde df ((nombre, columna_nombre, codigo) # resto) =
     (case primera df columna_nombre of
        Inl e \<Rightarrow> ([], Some e)
      | Inr x \<Rightarrow>
          (case formato codigo x of
             Inl e \<Rightarrow> ([], Some e)
           | Inr v \<Rightarrow>
               (case metricas_desde df resto of
                  (evs, r) \<Rightarrow> (Ev (Metric nombre v) # evs, r))))"

definition metricas :: "dataframe \<Rightarrow> event_df list \<times> exn option" where
  "metricas df =
     metricas_desde df
       [(UltimoPrecio, ''lastPrice'', CHR ''f''), (Bid, ''bid'', CHR ''f''),
        (Ask, ''ask'', CHR ''f''), (VolatilidadImplicita, ''impliedVolatility'', CHR ''%'')]"

text \<open>Lines 125-129.\<close>

definition mostrar_historial_df :: "dataframe \<Rightarrow> event_df list \<times> exn option" where
  "mostrar_historial_df historial =
     (if \<not> df_empty historial
      then (case columna historial ''Close'' of
              Inl e \<Rightarrow> ([], Some e)
            | Inr col \<Rightarrow> ([LineChartDf col], None))
      else ([Ev WarningSinHistorial], None))"

text \<open>The body of the \<open>try\<close> (lines 96-129).\<close>

definition buscar_body_df ::
  "provider_df \<Rightarrow> nat \<Rightarrow> cache_df \<Rightarrow> string \<Rightarrow> fecha \<Rightarrow> string option \<Rightarrow> rat option
     \<Rightarrow> (event_df list \<times> exn option) \<times> cache_df" where
  "buscar_body_df prov now c accion fecha_elegida tipo_opcion_elegido strike_elegido =
     (case get_option_dataframes_df prov now (chain_cache_df c) accion fecha_elegida of
        ((Inl e, evs), m) \<Rightarrow> ((evs, Some e), c\<lparr>chain_cache_df := m\<rparr>)
      | ((Inr (calls, puts), evs), m) \<Rightarrow>
          (let c1 = c\<lparr>chain_cache_df := m\<rparr>;
               datos = (if tipo_opcion_elegido = Some ''Call'' then calls else puts)
           in case opcion_seleccionada_df datos strike_elegido of
                Inl e \<Rightarrow> ((evs, Some e), c1)
              | Inr seleccion \<Rightarrow>
                  if df_empty seleccion
                  then ((evs @ [Ev WarningSinCoincidencia], None), c1)
                  else
                   (let evs1 = evs @
                          [Ev SuccessEncontrada, DataframeDf seleccion,
                           Ev (Subheader MetricasClave), Ev (Columns 4)]
                    in case metricas seleccion of
                         (evm, Some e) \<Rightarrow> ((evs1 @ evm, Some e), c1)
                       | (evm, None) \<Rightarrow>
                           (let evs2 = evs1 @ evm @ [Ev (Subheader HistorialDePrecio)]
                            in case primera seleccion ''contractSymbol'' of
                                 Inl e \<Rightarrow> ((evs2, Some e), c1)
                               | Inr contract_symbol \<Rightarrow>
                                   (case get_option_history_df prov now (history_cache_df c1)
                                           contract_symbol of
                                      ((Inl e, evh), m2) \<Rightarrow>
                                        ((evs2 @ evh, Some e), c1\<lparr>history_cache_df := m2\<rparr>)
                                    | ((Inr historial, evh), m2) \<Rightarrow>
                                        (case mostrar_historial_df historial of
                                           (evc, r) \<Rightarrow>
                                             ((evs2 @ evh @ evc, r),
                                              c1\<lparr>history_cache_df := m2\<rparr>)))))))"

text \<open>
  A \<open>try\<close> with one \<open>except\<close> clause: an exception of the clause's class is handled, after
  what the body had rendered, and any other exception leaves the statement. Every value
  of \<open>exn\<close> is an instance of \<open>Exception\<close>.
\<close>

definition try_except ::
  "(exn \<Rightarrow> bool) \<Rightarrow> (exn \<Rightarrow> 'a list) \<Rightarrow> 'a list \<times> exn option \<Rightarrow> 'a list \<times> exn option" where
  "try_except clase handler r =
     (case r of
        (evs, None) \<Rightarrow> (evs, None)
      | (evs, Some e) \<Rightarrow> if clase e then (evs @ handler e, None) else (evs, Some e))"

fun is_Exception :: "exn \<Rightarrow> bool" where
  "is_Exception (IndexError s) = True"
| "is_Exception (KeyError s) = True"
| "is_Exception (OtherException s) = True"

text \<open>
  Lines 95-133:
  \<^verbatim>\<open>except Exception as e: st.error(f"... {e}")\<close>
\<close>

definition buscar_opcion_df ::
  "provider_df \<Rightarrow> nat \<Rightarrow> cache_df \<Rightarrow> string \<Rightarrow> fecha \<Rightarrow> string option \<Rightarrow> rat option
     \<Rightarrow> (event_df list \<times> exn option) \<times> cache_df" where
  "buscar_opcion_df prov now c accion fecha_elegida tipo_opcion_elegido strike_elegido =
     (case buscar_body_df prov now c accion fecha_elegida tipo_opcion_elegido strike_elegido of
        (r, c') \<Rightarrow> (try_except is_Exception (\<lambda>e. [Ev (ErrorOpcion (message e))]) r, c'))"

text \<open>
  The price of line 50, then formatted with \<open>.2f\<close> in line 55: a number, or the exception
  raised on the way.
\<close>

definition precio_actual_df :: "provider_df \<Rightarrow> string \<Rightarrow> exn + cell" where
  "precio_actual_df prov accion =
     (case history_df prov accion P1d of
        Inl e \<Rightarrow> Inl e
      | Inr df \<Rightarrow> (case columna df ''Close'' of Inl e \<Rightarrow> Inl e | Inr col \<Rightarrow> iloc_last col))"

text \<open>
  The script. An exception that leaves the search leaves the script: the run ends
  \<open>Uncaught\<close> there.
\<close>

definition script_df ::
  "provider_df \<Rightarrow> nat \<Rightarrow> inputs \<Rightarrow> cache_df \<Rightarrow> (event_df list \<times> outcome) \<times> cache_df" where
  "script_df prov now inp c =
     (let cabecera = [Ev SetPageConfig, Ev Title, Ev TextInput];
          pie = [Ev Markdown, Ev Write];
          ticker_simbolo = upper (ticker_text inp)
      in if ticker_simbolo = [] then ((cabecera @ pie, Completed), c)
         else
          (let accion = get_ticker_object ticker_simbolo;
               evs0 = cabecera @ [Ev (Query (History accion P1d))]
           in case precio_actual_df prov accion of
                Inl e \<Rightarrow>
                  if is_IndexError e
                  then ((evs0 @ [Ev (ErrorTickerNoValido ticker_simbolo)], Stopped), c)
                  else ((evs0, Uncaught e), c)
              | Inr celda \<Rightarrow>
                 (case formato CHR ''f'' celda of
                    Inl e \<Rightarrow> ((evs0, Uncaught e), c)
                  | Inr precio \<Rightarrow>
                  (let strike_central =
                         (case strike_input inp of
                            None \<Rightarrow> py_round precio (- 1)
                          | Some v \<Rightarrow> v);
                       strikes = strikes_disponibles strike_central;
                       strike_elegido = selectbox strikes (strike_index inp);
                       evs1 = evs0 @
                         [Ev (SuccessPrecio ticker_simbolo precio), Ev (Columns 3),
                          Ev (Subheader ElegirStrike), Ev (NumberInput strike_central),
                          Ev (SelectboxStrike strikes),
                          Ev (Subheader ElegirVencimiento), Ev (Query (Options accion))]
                   in case options_df prov accion of
                        Inl e \<Rightarrow> ((evs1, Uncaught e), c)
                      | Inr todas_las_fechas \<Rightarrow>
                          (let (evs2, fecha_elegida) =
                                 vencimiento ticker_simbolo todas_las_fechas (fecha_index inp);
                               tipos = [''Call'', ''Put''];
                               tipo_opcion_elegido = selectbox tipos (tipo_index inp);
                               evs3 = evs1 @ map Ev evs2 @
                                 [Ev (Subheader ElegirTipo), Ev (SelectboxTipo tipos), Ev Button]
                           in case fecha_elegida of
                                None \<Rightarrow> ((evs3 @ pie, Completed), c)
                              | Some fecha \<Rightarrow>
                                  if button inp \<and> fecha \<noteq> []
                                  then
                                   (let evs4 = evs3 @
                                          [Ev (InfoBuscando tipo_opcion_elegido ticker_simbolo
                                                 fecha strike_elegido)]
                                    in case buscar_opcion_df prov now c accion fecha
                                              tipo_opcion_elegido strike_elegido of
                                         ((evs5, None), c') \<Rightarrow>
                                           ((evs4 @ evs5 @ pie, Completed), c')
                                       | ((evs5, Some e), c') \<Rightarrow>
                                           ((evs4 @ evs5, Uncaught e), c'))
                                  else ((evs3 @ pie, Completed), c))))))"

text \<open>A table with the provider's schema, as a DataFrame.\<close>

definition frame_of :: "option_row list \<Rightarrow> dataframe" where
  "frame_of rows =
     [(''contractSymbol'', map (\<lambda>fila. Str (contractSymbol fila)) rows),
      (''strike'', map (\<lambda>fila. Num (strike fila)) rows),
      (''lastPrice'', map (\<lambda>fila. Num (lastPrice fila)) rows),
      (''bid'', map (\<lambda>fila. Num (bid fila)) rows),
      (''ask'', map (\<lambda>fila. Num (ask fila)) rows),
      (''impliedVolatility'', map (\<lambda>fila. Num (impliedVolatility fila)) rows)]"
section \<open>Properties of the thinning\<close>

lemma fechas_loop_range_step:
  "fechas_loop l p i acc =
     acc @ take (20 - length acc) (map ((!) l) (range_step i (length l) p))"
proof (induction l p i acc rule: fechas_loop.induct)
  case (1 l p i acc)
  show ?case
  proof (cases "i < length l \<and> 0 < p")
    case True
    note IH = "1.IH" [OF True]
    show ?thesis
    proof (cases "length acc < 20")
      case short: True
      then obtain k where k: "20 - length acc = Suc k"
        by (cases "20 - length acc") auto
      then have k': "20 - length (acc @ [l ! i]) = k"
        by simp
      show ?thesis
        using True short IH k k'
        by (subst fechas_loop.simps, subst range_step.simps) simp
    next
      case False
      then show ?thesis
        using True IH
        by (subst fechas_loop.simps) simp
    qed
  next
    case False
    then show ?thesis
      by (subst fechas_loop.simps, subst range_step.simps) auto
  qed
qed

lemma range_step_explicit:
  "0 < p \<Longrightarrow> range_step i n p = map (\<lambda>k. i + k * p) [0..<(n - i + p - 1) div p]"
proof (induction i n p rule: range_step.induct)
  case (1 i n p)
  show ?case
  proof (cases "i < n")
    case True
    have IH: "range_step (i + p) n p = map (\<lambda>k. i + p + k * p) [0..<(n - (i + p) + p - 1) div p]"
      using "1.IH" True "1.prems" by simp
    have cnt: "(n - i + p - 1) div p = Suc ((n - (i + p) + p - 1) div p)"
    proof (cases "i + p \<le> n")
      case le: True
      define m where "m = n - (i + p) + p - 1"
      have "n - i + p - 1 = m + p"
        using le "1.prems" by (simp add: m_def)
      moreover have "(m + p) div p = Suc (m div p)"
        using "1.prems" by simp
      ultimately show ?thesis
        by (simp only: m_def)
    next
      case False
      define r where "r = n - i - 1"
      have a: "n - (i + p) + p - 1 = p - 1" using False by simp
      have b: "n - i + p - 1 = r + p" using True by (simp add: r_def)
      have c: "r < p" using False True by (simp add: r_def)
      have "(r + p) div p = Suc 0" using c "1.prems" by simp
      moreover have "(p - 1) div p = 0" using "1.prems" by simp
      ultimately show ?thesis
        by (simp only: a b)
    qed
    have "map (\<lambda>k. i + k * p) [0..<Suc ((n - (i + p) + p - 1) div p)]
          = i # map (\<lambda>k. i + p + k * p) [0..<(n - (i + p) + p - 1) div p]"
      by (simp add: upt_conv_Cons map_Suc_upt [symmetric] del: upt_Suc)
    then show ?thesis
      using True "1.prems" IH cnt
      by (subst range_step.simps) simp
  next
    case False
    then have "(n - i + p - 1) div p = 0"
      using "1.prems" by simp
    then show ?thesis
      using False by (subst range_step.simps) simp
  qed
qed

lemma fechas_a_mostrar_explicit:
  "fechas_a_mostrar xs =
     take 10 xs @
     take 10 (map (\<lambda>k. drop 10 xs ! (k * max 1 ((length xs - 10) div 10)))
                [0..<(length xs - 10 + max 1 ((length xs - 10) div 10) - 1)
                       div max 1 ((length xs - 10) div 10)])"
proof (cases "10 < length xs")
  case True
  define l where "l = drop 10 xs"
  define p where "p = max 1 (length l div 10)"
  have pos: "0 < p" by (simp add: p_def)
  have len: "20 - length (take 10 xs) = 10" using True by simp
  have "fechas_a_mostrar xs = fechas_loop l p 0 (take 10 xs)"
    using True by (simp add: fechas_a_mostrar_def Let_def l_def p_def)
  also have "\<dots> = take 10 xs @ take 10 (map ((!) l) (range_step 0 (length l) p))"
    by (simp only: fechas_loop_range_step len)
  also have "map ((!) l) (range_step 0 (length l) p)
             = map (\<lambda>k. l ! (k * p)) [0..<(length l + p - 1) div p]"
    by (simp add: range_step_explicit [OF pos] o_def)
  finally show ?thesis
    by (simp only: l_def p_def length_drop)
next
  case False
  then show ?thesis
    by (simp add: fechas_a_mostrar_def Let_def)
qed

lemma range_step_bounds: "j \<in> set (range_step i n p) \<Longrightarrow> i \<le> j \<and> j < n"
proof (induction i n p rule: range_step.induct)
  case (1 i n p)
  show ?case
  proof (cases "i < n \<and> 0 < p")
    case True
    with "1.prems" have "j = i \<or> j \<in> set (range_step (i + p) n p)"
      by (subst (asm) range_step.simps) simp
    then show ?thesis
      using "1.IH" [OF True] True by auto
  next
    case False
    with "1.prems" show ?thesis
      by (subst (asm) range_step.simps) simp
  qed
qed

lemma range_step_sorted: "sorted_wrt (<) (range_step i n p)"
proof (induction i n p rule: range_step.induct)
  case (1 i n p)
  show ?case
  proof (cases "i < n \<and> 0 < p")
    case True
    have "\<forall>j \<in> set (range_step (i + p) n p). i < j"
    proof
      fix j
      assume "j \<in> set (range_step (i + p) n p)"
      then have "i + p \<le> j" by (rule range_step_bounds [THEN conjunct1])
      then show "i < j" using True by simp
    qed
    then show ?thesis
      using "1.IH" [OF True] True by (subst range_step.simps) simp
  next
    case False
    then have "range_step i n p = []"
      by (subst range_step.simps) auto
    then show ?thesis by simp
  qed
qed

lemma fechas_a_mostrar_range:
  "fechas_a_mostrar xs =
     take 10 xs @
     take 10 (map ((!) (drop 10 xs))
                (range_step 0 (length xs - 10) (max 1 ((length xs - 10) div 10))))"
proof (cases "10 < length xs")
  case True
  then have len: "20 - length (take 10 xs) = 10" by simp
  show ?thesis
    using True
    by (simp add: fechas_a_mostrar_def Let_def fechas_loop_range_step)
next
  case False
  then have "range_step 0 (length xs - 10) (max 1 ((length xs - 10) div 10)) = []"
    by (subst range_step.simps) simp
  with False show ?thesis
    by (simp add: fechas_a_mostrar_def Let_def)
qed

lemma subseq_nth_sorted:
  "sorted_wrt (<) js \<Longrightarrow> \<forall>j \<in> set js. k \<le> j \<and> j < length xs
     \<Longrightarrow> subseq (map ((!) xs) js) (drop k xs)"
proof (induction js arbitrary: k)
  case Nil
  then show ?case by simp
next
  case (Cons j js)
  then have j: "k \<le> j" "j < length xs" by auto
  have "\<forall>i \<in> set js. Suc j \<le> i \<and> i < length xs"
    using Cons.prems by auto
  then have IH: "subseq (map ((!) xs) js) (drop (Suc j) xs)"
    using Cons.IH Cons.prems by simp
  have "drop k xs = take (j - k) (drop k xs) @ drop (j - k) (drop k xs)"
    by (rule append_take_drop_id [symmetric])
  also have "drop (j - k) (drop k xs) = drop j xs"
    using j by simp
  also have "drop j xs = xs ! j # drop (Suc j) xs"
    using j by (simp add: Cons_nth_drop_Suc)
  finally have split: "drop k xs = take (j - k) (drop k xs) @ xs ! j # drop (Suc j) xs" .
  have "subseq (xs ! j # map ((!) xs) js) (xs ! j # drop (Suc j) xs)"
    using IH by simp
  then have "subseq (xs ! j # map ((!) xs) js)
               (take (j - k) (drop k xs) @ xs ! j # drop (Suc j) xs)"
    by (rule list_emb_append2)
  then show ?case
    using split by simp
qed

lemma take_10_upt: "take 10 [0..<n] = [0..<min 10 n]"
  by (cases "10 \<le> n") (simp_all add: min_def)

lemma fechas_indices:
  "fechas_a_mostrar [0..<n] =
     [0..<min 10 n] @
     take 10 (map (\<lambda>j. 10 + j) (range_step 0 (n - 10) (max 1 ((n - 10) div 10))))"
proof -
  have "map ((!) (drop 10 [0..<n])) (range_step 0 (n - 10) (max 1 ((n - 10) div 10)))
        = map (\<lambda>j. 10 + j) (range_step 0 (n - 10) (max 1 ((n - 10) div 10)))"
  proof (rule map_cong [OF refl])
    fix j
    assume "j \<in> set (range_step 0 (n - 10) (max 1 ((n - 10) div 10)))"
    then have "j < n - 10" by (rule range_step_bounds [THEN conjunct2])
    then show "drop 10 [0..<n] ! j = 10 + j" by simp
  qed
  then show ?thesis
    by (simp only: fechas_a_mostrar_range length_upt diff_zero take_10_upt)
qed

lemma fechas_a_mostrar_nth:
  "fechas_a_mostrar xs = map ((!) xs) (fechas_a_mostrar [0..<length xs])"
proof -
  let ?R = "range_step 0 (length xs - 10) (max 1 ((length xs - 10) div 10))"
  have "take 10 xs = take 10 (map ((!) xs) [0..<length xs])"
    by (simp only: map_nth)
  also have "\<dots> = map ((!) xs) (take 10 [0..<length xs])"
    by (rule take_map)
  finally have a: "map ((!) xs) [0..<min 10 (length xs)] = take 10 xs"
    by (simp only: take_10_upt)
  have b: "map ((!) xs) (map (\<lambda>j. 10 + j) ?R) = map ((!) (drop 10 xs)) ?R"
    unfolding map_map
  proof (rule map_cong [OF refl])
    fix j
    assume "j \<in> set ?R"
    then have "j < length xs - 10" by (rule range_step_bounds [THEN conjunct2])
    then show "((!) xs \<circ> (\<lambda>j. 10 + j)) j = drop 10 xs ! j" by simp
  qed
  have "map ((!) xs) (fechas_a_mostrar [0..<length xs])
        = map ((!) xs) [0..<min 10 (length xs)]
          @ take 10 (map ((!) xs) (map (\<lambda>j. 10 + j) ?R))"
    by (simp only: fechas_indices map_append take_map)
  also have "\<dots> = fechas_a_mostrar xs"
    by (simp only: a b fechas_a_mostrar_range [of xs])
  finally show ?thesis by simp
qed

lemma fechas_indices_sorted: "sorted_wrt (<) (fechas_a_mostrar [0..<n])"
proof -
  let ?R = "range_step 0 (n - 10) (max 1 ((n - 10) div 10))"
  let ?S = "take 10 (map (\<lambda>j. 10 + j) ?R)"
  have "sorted_wrt (<) (map (\<lambda>j. 10 + j) ?R)"
    using range_step_sorted [of 0 "n - 10"] by (simp add: sorted_wrt_map)
  then have s2: "sorted_wrt (<) ?S"
    by (rule sorted_wrt_take)
  have s1: "sorted_wrt (<) [0..<min 10 n]"
    by (rule sorted_wrt_upt)
  have "\<forall>x \<in> set [0..<min 10 n]. \<forall>y \<in> set ?S. x < y"
  proof (intro ballI)
    fix x y
    assume x: "x \<in> set [0..<min 10 n]" and y: "y \<in> set ?S"
    from x have "x < 10" by simp
    moreover from y have "y \<in> set (map (\<lambda>j. 10 + j) ?R)" by (rule in_set_takeD)
    ultimately show "x < y" by auto
  qed
  then show ?thesis
    using s1 s2 by (simp only: fechas_indices sorted_wrt_append)
qed

lemma fechas_indices_bound:
  assumes "j \<in> set (fechas_a_mostrar [0..<n])"
  shows "j < n"
proof -
  let ?R = "range_step 0 (n - 10) (max 1 ((n - 10) div 10))"
  from assms consider "j \<in> set [0..<min 10 n]" | "j \<in> set (take 10 (map (\<lambda>j. 10 + j) ?R))"
    by (auto simp only: fechas_indices set_append)
  then show ?thesis
  proof cases
    case 1
    then show ?thesis by simp
  next
    case 2
    then have "j \<in> set (map (\<lambda>j. 10 + j) ?R)" by (rule in_set_takeD)
    then obtain k where k: "k \<in> set ?R" "j = 10 + k" by auto
    from k(1) have "k < n - 10" by (rule range_step_bounds [THEN conjunct2])
    with k(2) show ?thesis by simp
  qed
qed



section \<open>Properties of the float arithmetic and of the candidate strikes\<close>

lemma round_half_even_of_int: "round_half_even (of_int z) = z"
  by (simp add: round_half_even_def)

lemma bitlen_pos:
  assumes "0 < (a::int)"
  shows "bitlen a = int (nat (bitlen a - 1)) + 1"
proof -
  have "bitlen a \<noteq> 0" using assms by (simp add: bitlen_eq_zero_iff)
  moreover have "0 \<le> bitlen a" by (rule bitlen_nonneg)
  ultimately show ?thesis by simp
qed

lemma int_bounds_rat:
  assumes "2 ^ m \<le> (x::int) \<and> x < 2 ^ n"
  shows "(2::rat) ^ m \<le> of_int x" and "(of_int x :: rat) < 2 ^ n"
proof -
  have "(of_int (2 ^ m) :: rat) \<le> of_int x"
    using assms by (simp only: of_int_le_iff)
  then show "(2::rat) ^ m \<le> of_int x" by simp
  have "(of_int x :: rat) < of_int (2 ^ n)"
    using assms by (simp only: of_int_less_iff)
  then show "(of_int x :: rat) < 2 ^ n" by simp
qed

lemma exponent2_bounds:
  assumes "0 < q"
  shows "2 powi (exponent2 q) \<le> q" and "q < 2 powi (exponent2 q + 1)"
proof -
  obtain a b where ab: "quotient_of q = (a, b)"
    by (cases "quotient_of q")
  have b: "0 < b" using ab by (rule quotient_of_denom_pos)
  have q: "q = of_int a / of_int b" using ab by (rule quotient_of_div)
  have a: "0 < a"
    using assms b unfolding q by (simp add: zero_less_divide_iff)
  define na where "na = nat (bitlen a - 1)"
  define nb where "nb = nat (bitlen b - 1)"
  have la: "bitlen a = int na + 1"
    unfolding na_def using a by (rule bitlen_pos)
  have lb: "bitlen b = int nb + 1"
    unfolding nb_def using b by (rule bitlen_pos)
  have sa: "nat (bitlen a) = Suc na" using la by simp
  have sb: "nat (bitlen b) = Suc nb" using lb by simp
  have "2 ^ na \<le> a \<and> a < 2 ^ Suc na"
    using bitlen_bounds [OF a] by (simp only: na_def [symmetric] sa)
  then have a_lo: "(2::rat) ^ na \<le> of_int a" and a_hi: "of_int a < (2::rat) ^ Suc na"
    by (rule int_bounds_rat)+
  have "2 ^ nb \<le> b \<and> b < 2 ^ Suc nb"
    using bitlen_bounds [OF b] by (simp only: nb_def [symmetric] sb)
  then have b_lo: "(2::rat) ^ nb \<le> of_int b" and b_hi: "of_int b < (2::rat) ^ Suc nb"
    by (rule int_bounds_rat)+
  define d where "d = bitlen a - bitlen b"
  have d: "d = int na - int nb" by (simp add: d_def la lb)
  have e: "exponent2 q = (if 2 powi d \<le> q then d else d - 1)"
    by (simp add: exponent2_def ab d_def Let_def)
  have lower: "(2::rat) powi (d - 1) \<le> q"
  proof -
    have "d - 1 = int na - int (Suc nb)"
      by (simp add: d)
    moreover have "(2::rat) powi (int na - int (Suc nb)) = 2 powi int na / 2 powi int (Suc nb)"
      by (rule power_int_diff) simp
    ultimately have "(2::rat) powi (d - 1) = 2 ^ na / 2 ^ Suc nb"
      by (simp only: power_int_of_nat)
    also have "\<dots> \<le> of_int a / of_int b"
    proof (rule frac_le)
      show "(0::rat) \<le> of_int a" using a by simp
      show "(2::rat) ^ na \<le> of_int a" by (rule a_lo)
      show "(0::rat) < of_int b" using b by simp
      show "(of_int b :: rat) \<le> 2 ^ Suc nb" using b_hi by (rule less_imp_le)
    qed
    finally show ?thesis by (simp add: q)
  qed
  have upper: "q < (2::rat) powi (d + 1)"
  proof -
    have "of_int a / of_int b < (2::rat) ^ Suc na / 2 ^ nb"
    proof (rule frac_less)
      show "(0::rat) \<le> of_int a" using a by simp
      show "(of_int a :: rat) < 2 ^ Suc na" by (rule a_hi)
      show "(0::rat) < 2 ^ nb" by simp
      show "(2::rat) ^ nb \<le> of_int b" by (rule b_lo)
    qed
    also have "\<dots> = 2 powi (d + 1)"
    proof -
      have "d + 1 = int (Suc na) - int nb"
        by (simp add: d)
      moreover have "(2::rat) powi (int (Suc na) - int nb) = 2 powi int (Suc na) / 2 powi int nb"
        by (rule power_int_diff) simp
      ultimately show ?thesis
        by (simp only: power_int_of_nat)
    qed
    finally show ?thesis by (simp add: q)
  qed
  show "2 powi (exponent2 q) \<le> q"
    using lower by (simp add: e)
  show "q < 2 powi (exponent2 q + 1)"
    using upper by (auto simp: e not_le)
qed

lemma to_double_fixed:
  assumes q: "q = of_int m * 2 powi k" and m: "\<bar>m\<bar> < 2 ^ 53" and k: "- 1074 \<le> k"
  shows "to_double q = q"
proof (cases "q = 0")
  case True
  then show ?thesis by (simp add: to_double_def)
next
  case False
  define e where "e = exponent2 \<bar>q\<bar>"
  define p where "p = max (e - 52) (- 1074)"
  have pos: "0 < \<bar>q\<bar>" using False by simp
  have "2 powi e \<le> \<bar>q\<bar>"
    unfolding e_def using pos by (rule exponent2_bounds)
  also have "\<bar>q\<bar> = of_int \<bar>m\<bar> * 2 powi k"
    unfolding q by (simp add: abs_mult)
  also have "\<dots> < 2 ^ 53 * 2 powi k"
  proof -
    have "(of_int \<bar>m\<bar> :: rat) < of_int (2 ^ 53)"
      using m by (simp only: of_int_less_iff)
    then show ?thesis by (simp add: mult_strict_right_mono)
  qed
  also have "\<dots> = 2 powi (53 + k)"
  proof -
    have "(2::rat) powi (53 + k) = 2 powi 53 * 2 powi k"
      by (rule power_int_add) simp
    then show ?thesis by simp
  qed
  finally have "(2::rat) powi e < 2 powi (53 + k)" .
  then have "e < 53 + k"
  proof (rule contrapos_pp)
    assume "\<not> e < 53 + k"
    then have "53 + k \<le> e" by simp
    then have "(2::rat) powi (53 + k) \<le> 2 powi e"
      by (rule power_int_increasing) simp
    then show "\<not> (2::rat) powi e < 2 powi (53 + k)" by simp
  qed
  then have pk: "p \<le> k"
    using k by (simp add: p_def)
  define z where "z = m * 2 ^ nat (k - p)"
  have "(2::rat) powi (k - p) = 2 powi k / 2 powi p"
    by (rule power_int_diff) simp
  then have "q / 2 powi p = of_int m * 2 powi (k - p)"
    unfolding q by simp
  also have "(2::rat) powi (k - p) = 2 ^ nat (k - p)"
    using pk by (simp add: power_int_def)
  finally have quo: "q / 2 powi p = of_int z"
    by (simp add: z_def)
  have "to_double q = of_int (round_half_even (q / 2 powi p)) * 2 powi p"
    using False by (simp add: to_double_def Let_def p_def e_def)
  also have "\<dots> = of_int z * 2 powi p"
    by (simp only: quo round_half_even_of_int)
  also have "\<dots> = q / 2 powi p * 2 powi p"
    by (simp only: quo)
  also have "\<dots> = q"
    by simp
  finally show ?thesis .
qed

lemma to_double_half_int:
  assumes "\<bar>n\<bar> < 2 ^ 53"
  shows "to_double (of_int n / 2) = of_int n / 2"
  by (rule to_double_fixed [where m = n and k = "- 1"]) (use assms in \<open>simp_all add: power_int_minus\<close>)

lemma to_double_int:
  assumes "\<bar>n\<bar> < 2 ^ 53"
  shows "to_double (of_int n) = of_int n"
  by (rule to_double_fixed [where m = n and k = 0]) (use assms in simp_all)

text \<open>
  The product \<open>(i - 10) * 0.5\<close> is exact, a multiple of 0.5 of moderate size is a double
  and is its own rounding to 2 decimals.
\<close>

lemma half_product_exact:
  assumes "\<bar>k\<bar> < 2 ^ 52"
  shows "fmul (float_of_int k) (1 / 2) = of_int k / 2"
proof -
  have k: "\<bar>k\<bar> < 2 ^ 53" using assms by simp
  have "float_of_int k = of_int k"
    unfolding float_of_int_def using k by (rule to_double_int)
  then have "fmul (float_of_int k) (1 / 2) = to_double (of_int k / 2)"
    by (simp add: fmul_def)
  also have "\<dots> = of_int k / 2"
    using k by (rule to_double_half_int)
  finally show ?thesis .
qed

lemma strikes_disponibles_nth:
  "i < 21 \<Longrightarrow>
     strikes_disponibles c ! i
       = py_round (fadd c (fmul (float_of_int (int i - 10)) (1 / 2))) 2"
  unfolding strikes_disponibles_def by (simp del: upt_Suc)

lemma strikes_disponibles_nth_half:
  assumes "i < 21"
  shows "strikes_disponibles c ! i = py_round (fadd c (of_int (int i - 10) / 2)) 2"
proof -
  have "\<bar>int i - 10\<bar> < 2 ^ 52" using assms by simp
  then have "fmul (float_of_int (int i - 10)) (1 / 2) = of_int (int i - 10) / 2"
    by (rule half_product_exact)
  then show ?thesis
    using strikes_disponibles_nth [OF assms, of c] by (simp only:)
qed

lemma py_round_2_half_int:
  assumes "\<bar>n\<bar> < 2 ^ 53"
  shows "py_round (of_int n / 2) 2 = of_int n / 2"
proof -
  have "of_int n / 2 * 10 ^ nat 2 = (of_int (50 * n) :: rat)"
    by simp
  then have "round_half_even (of_int n / 2 * 10 ^ nat 2) = 50 * n"
    by (simp only: round_half_even_of_int)
  then have "round_decimal (of_int n / 2) 2 = of_int (50 * n) / 10 ^ nat 2"
    by (simp only: round_decimal_def) simp
  also have "\<dots> = of_int n / 2"
    by simp
  finally have "round_decimal (of_int n / 2) 2 = of_int n / 2" .
  then have "py_round (of_int n / 2) 2 = to_double (of_int n / 2)"
    by (simp only: py_round_def)
  also have "\<dots> = of_int n / 2"
    using assms by (rule to_double_half_int)
  finally show ?thesis .
qed

lemma strikes_disponibles_half_int:
  assumes c: "c = of_int n / 2" and n: "\<bar>n\<bar> < 2 ^ 52" and i: "i < 21"
  shows "strikes_disponibles c ! i = c + of_int (int i - 10) / 2"
proof -
  define N where "N = n + (int i - 10)"
  have N: "\<bar>N\<bar> < 2 ^ 53" using n i by (simp add: N_def)
  have sum: "c + of_int (int i - 10) / 2 = of_int N / 2"
    by (simp add: c N_def add_divide_distrib)
  have "fadd c (of_int (int i - 10) / 2) = of_int N / 2"
    unfolding fadd_def sum using N by (rule to_double_half_int)
  then have "strikes_disponibles c ! i = py_round (of_int N / 2) 2"
    using strikes_disponibles_nth_half [OF i, of c] by (simp only:)
  also have "\<dots> = of_int N / 2"
    using N by (rule py_round_2_half_int)
  finally show ?thesis by (simp only: sum)
qed

lemma strikes_disponibles_grid:
  assumes "\<bar>n\<bar> < 2 ^ 52"
  shows "strikes_disponibles (of_int n / 2)
           = map (\<lambda>i. of_int n / 2 + of_int (int i - 10) / 2) [0..<21]"
proof (rule nth_equalityI)
  show "length (strikes_disponibles (of_int n / 2))
          = length (map (\<lambda>i. of_int n / 2 + of_int (int i - 10) / 2) [0..<21])"
    by (simp add: strikes_disponibles_def del: upt_Suc)
next
  fix i
  assume "i < length (strikes_disponibles (of_int n / 2))"
  then have i: "i < 21"
    by (simp add: strikes_disponibles_def del: upt_Suc)
  have "strikes_disponibles (of_int n / 2) ! i = of_int n / 2 + of_int (int i - 10) / 2"
    using refl assms i by (rule strikes_disponibles_half_int)
  also have "\<dots> = map (\<lambda>i. of_int n / 2 + of_int (int i - 10) / 2) [0..<21] ! i"
    using i by (simp del: upt_Suc)
  finally show "strikes_disponibles (of_int n / 2) ! i
                  = map (\<lambda>i. of_int n / 2 + of_int (int i - 10) / 2) [0..<21] ! i" .
qed

lemma strikes_disponibles_150:
  "strikes_disponibles 150 =
     [145, 291 / 2, 146, 293 / 2, 147, 295 / 2, 148, 297 / 2, 149, 299 / 2,
      150, 301 / 2, 151, 303 / 2, 152, 305 / 2, 153, 307 / 2, 154, 309 / 2, 155]"
proof -
  have "strikes_disponibles (of_int 300 / 2)
          = map (\<lambda>i. of_int 300 / 2 + of_int (int i - 10) / 2) [0..<21]"
    by (rule strikes_disponibles_grid) simp
  also have "\<dots> = [145, 291 / 2, 146, 293 / 2, 147, 295 / 2, 148, 297 / 2, 149, 299 / 2,
      150, 301 / 2, 151, 303 / 2, 152, 305 / 2, 153, 307 / 2, 154, 309 / 2, 155]"
    by code_simp
  finally show ?thesis by simp
qed

section \<open>Properties of a run\<close>

text \<open>
  What the cache does: an entry younger than \<open>ttl\<close> is served without running the
  function, and a call that finds no entry and returns stores its value.
\<close>

lemma cache_data_hit:
  "memo key = Some (v, stored) \<Longrightarrow> now < stored + ttl
     \<Longrightarrow> cache_data ttl now memo key body = ((Inr v, []), memo)"
  by (simp add: cache_data_def)

lemma cache_data_miss_stores:
  "memo key = None \<Longrightarrow> body = (Inr v, evs)
     \<Longrightarrow> cache_data ttl now memo key body = ((Inr v, evs), memo(key \<mapsto> (v, now)))"
  by (simp add: cache_data_def)

lemma cache_data_never_raises:
  assumes "\<exists>v. fst body = Inr v"
  shows "\<exists>v evs m. cache_data ttl now memo key body = ((Inr v, evs), m)"
  using assms
  by (cases body) (auto simp: cache_data_def Let_def split: option.splits sum.splits)

lemma cache_data_events:
  "cache_data ttl now memo key body = ((r, evs), m) \<Longrightarrow> evs = [] \<or> evs = snd body"
  by (cases body) (auto simp: cache_data_def Let_def split: option.splits sum.splits if_splits)

lemma get_option_dataframes_events:
  "get_option_dataframes prov now memo t f = ((r, evs), m)
     \<Longrightarrow> evs = [] \<or> evs = [Query (OptionChain t f)]"
  unfolding get_option_dataframes_def
  by (drule cache_data_events) (simp add: get_option_dataframes_uncached_def)

lemma get_option_history_events:
  "get_option_history prov now memo cs = ((r, evs), m)
     \<Longrightarrow> evs = [] \<or> evs = [Query (History cs P1mo)]"
  unfolding get_option_history_def
  by (drule cache_data_events) (simp add: get_option_history_uncached_def)

lemma get_option_history_Inr:
  "\<exists>h evs m. get_option_history prov now memo cs = ((Inr h, evs), m)"
proof -
  have "\<exists>v. fst (get_option_history_uncached prov cs) = Inr v"
    by (simp add: get_option_history_uncached_def split: sum.splits)
  then show ?thesis
    unfolding get_option_history_def by (rule cache_data_never_raises)
qed

text \<open>The three shapes of the log of the body of the try.\<close>

lemma buscar_body_cases:
  obtains
    (raises) e evs m where
      "get_option_dataframes prov now (chain_cache c) accion fecha = ((Inl e, evs), m)"
      "buscar_body prov now c accion fecha tipo k = ((evs, Some e), c\<lparr>chain_cache := m\<rparr>)"
  | (nomatch) calls puts evs m where
      "get_option_dataframes prov now (chain_cache c) accion fecha = ((Inr (calls, puts), evs), m)"
      "opcion_seleccionada (if tipo = Some ''Call'' then calls else puts) k = []"
      "buscar_body prov now c accion fecha tipo k
         = ((evs @ [WarningSinCoincidencia], None), c\<lparr>chain_cache := m\<rparr>)"
  | (found) calls puts evs m fila resto history_df evs2 m2 where
      "get_option_dataframes prov now (chain_cache c) accion fecha = ((Inr (calls, puts), evs), m)"
      "opcion_seleccionada (if tipo = Some ''Call'' then calls else puts) k = fila # resto"
      "get_option_history prov now (history_cache c) (contractSymbol fila)
         = ((Inr history_df, evs2), m2)"
      "buscar_body prov now c accion fecha tipo k
         = ((evs @ [SuccessEncontrada, Dataframe (fila # resto),
                    Subheader MetricasClave, Columns 4,
                    Metric UltimoPrecio (lastPrice fila), Metric Bid (bid fila),
                    Metric Ask (ask fila),
                    Metric VolatilidadImplicita (impliedVolatility fila),
                    Subheader HistorialDePrecio] @ evs2 @ mostrar_historial history_df, None),
            c\<lparr>chain_cache := m, history_cache := m2\<rparr>)"
proof -
  obtain r evs m where g: "get_option_dataframes prov now (chain_cache c) accion fecha = ((r, evs), m)"
    by (metis prod.exhaust)
  show ?thesis
  proof (cases r)
    case (Inl e)
    with g show ?thesis
      by (intro raises [of e evs m]) (simp_all add: buscar_body_def)
  next
    case (Inr cp)
    obtain calls puts where cp: "cp = (calls, puts)" by (cases cp)
    show ?thesis
    proof (cases "opcion_seleccionada (if tipo = Some ''Call'' then calls else puts) k")
      case Nil
      with g Inr cp show ?thesis
        by (intro nomatch [of calls puts evs m]) (simp_all add: buscar_body_def Let_def)
    next
      case (Cons fila resto)
      obtain history_df evs2 m2 where
        h: "get_option_history prov now (history_cache c) (contractSymbol fila)
              = ((Inr history_df, evs2), m2)"
        using get_option_history_Inr by blast
      with g Inr cp Cons show ?thesis
        by (intro found [of calls puts evs m fila resto history_df evs2 m2])
           (simp_all add: buscar_body_def Let_def)
    qed
  qed
qed

lemma buscar_opcion_tickers:
  assumes "ev \<in> set (fst (buscar_opcion prov now c accion fecha tipo k))"
    and "ticker_consultado ev = Some s"
  shows "s = accion"
proof (cases rule: buscar_body_cases [of prov now c accion fecha tipo k])
  case (raises e evs m)
  have "evs = [] \<or> evs = [Query (OptionChain accion fecha)]"
    using raises(1) by (rule get_option_dataframes_events)
  with assms raises(2) show ?thesis
    by (auto simp: buscar_opcion_def)
next
  case (nomatch calls puts evs m)
  have "evs = [] \<or> evs = [Query (OptionChain accion fecha)]"
    using nomatch(1) by (rule get_option_dataframes_events)
  with assms nomatch(3) show ?thesis
    by (auto simp: buscar_opcion_def)
next
  case (found calls puts evs m fila resto history_df evs2 m2)
  have 1: "evs = [] \<or> evs = [Query (OptionChain accion fecha)]"
    using found(1) by (rule get_option_dataframes_events)
  have 2: "evs2 = [] \<or> evs2 = [Query (History (contractSymbol fila) P1mo)]"
    using found(3) by (rule get_option_history_events)
  from assms found(4) 1 2 show ?thesis
    by (auto simp: buscar_opcion_def mostrar_historial_def split: if_splits)
qed

lemma buscar_opcion_tickers_log:
  "buscar_opcion prov now c accion fecha tipo k = (evs, c') \<Longrightarrow> ev \<in> set evs
     \<Longrightarrow> ticker_consultado ev = Some s \<Longrightarrow> s = accion"
  using buscar_opcion_tickers [of ev prov now c accion fecha tipo k s] by simp

lemma script_tickers:
  assumes "ev \<in> set (fst (fst (script prov now inp c)))"
    and "ticker_consultado ev = Some s"
  shows "s = upper (ticker_text inp)"
  using assms
  by (auto simp: script_def Let_def get_ticker_object_def vencimiento_def
      split: if_splits sum.splits option.splits prod.splits
      dest: buscar_opcion_tickers_log)


section \<open>The claims\<close>

text \<open>
  Claim C1. For every list of expiration dates the list to display has at most 20
  entries; it starts with the first 10 dates as they are; and it is these first 10
  followed by the dates sampled from the remainder \<open>drop 10 xs\<close> at the indices
  \<open>0, paso, 2 * paso, ...\<close> with \<open>paso = max 1 (length (drop 10 xs) div 10)\<close>, of which
  only the first 10 are appended (the result has 10 entries when sampling starts, and
  an entry is appended only while it has fewer than 20).
\<close>

theorem C1_fechas_a_mostrar_at_most_20:
  "length (fechas_a_mostrar xs) \<le> 20
   \<and> take 10 (fechas_a_mostrar xs) = take 10 xs
   \<and> fechas_a_mostrar xs =
       take 10 xs @
       take 10 (map (\<lambda>k. drop 10 xs ! (k * max 1 (length (drop 10 xs) div 10)))
                  [0..<(length (drop 10 xs) + max 1 (length (drop 10 xs) div 10) - 1)
                         div max 1 (length (drop 10 xs) div 10)])"
proof -
  let ?s = "take 10 (map (\<lambda>k. drop 10 xs ! (k * max 1 (length (drop 10 xs) div 10)))
                  [0..<(length (drop 10 xs) + max 1 (length (drop 10 xs) div 10) - 1)
                         div max 1 (length (drop 10 xs) div 10)])"
  have eq: "fechas_a_mostrar xs = take 10 xs @ ?s"
    using fechas_a_mostrar_explicit [of xs] by simp
  have l1: "length (take 10 xs) \<le> 10" by simp
  have l2: "length ?s \<le> 10" by simp
  have "length (fechas_a_mostrar xs) \<le> 20"
    unfolding eq length_append using l1 l2 by linarith
  moreover have "take 10 (fechas_a_mostrar xs) = take 10 xs"
  proof (cases "10 \<le> length xs")
    case True
    then show ?thesis unfolding eq by simp
  next
    case False
    then have "?s = []" by simp
    then show ?thesis unfolding eq by simp
  qed
  ultimately show ?thesis using eq by blast
qed

theorem C1_fechas_a_mostrar_witness:
  "fechas_a_mostrar [0 ..< 35 :: nat]
     = [0, 1, 2, 3, 4, 5, 6, 7, 8, 9, 10, 12, 14, 16, 18, 20, 22, 24, 26, 28]
   \<and> length (fechas_a_mostrar [0 ..< 35 :: nat]) \<le> 20"
proof -
  have "fechas_a_mostrar [0 ..< 35 :: nat]
     = [0, 1, 2, 3, 4, 5, 6, 7, 8, 9, 10, 12, 14, 16, 18, 20, 22, 24, 26, 28]"
    by code_simp
  then show ?thesis
    using C1_fechas_a_mostrar_at_most_20 [of "[0 ..< 35 :: nat]"] by simp
qed

text \<open>
  Claim C2, as amended. For every reference strike \<open>c\<close> there are exactly 21 candidates;
  candidate \<open>i\<close> is \<open>round(c + (i - 10) * 0.5, 2)\<close> computed in float arithmetic, where the
  product is exact; the first and the last are \<open>round(c - 5, 2)\<close> and \<open>round(c + 5, 2)\<close>;
  and for a finite double \<open>c\<close> the candidate at index 10, which is the default selection
  of the select box, is \<open>round(c, 2)\<close>. When \<open>c\<close> is a multiple of 0.5 of magnitude below
  \<open>2 ^ 51\<close> (as the default \<open>round(price, -1)\<close> and every whole number typed in are), the
  candidates are exactly \<open>c - 5, c - 4.5, ..., c + 5\<close>, in steps of 0.5.
\<close>

theorem C2_strikes_disponibles:
  "length (strikes_disponibles c) = 21
   \<and> (\<forall>i<21. strikes_disponibles c ! i
          = py_round (fadd c (fmul (float_of_int (int i - 10)) (1 / 2))) 2)
   \<and> (\<forall>i<21. strikes_disponibles c ! i = py_round (fadd c (of_int (int i - 10) / 2)) 2)
   \<and> strikes_disponibles c ! 0 = py_round (fadd c (- 5)) 2
   \<and> strikes_disponibles c ! 20 = py_round (fadd c 5) 2
   \<and> (is_double c \<longrightarrow>
        strikes_disponibles c ! 10 = py_round c 2
        \<and> selectbox (strikes_disponibles c) 10 = Some (py_round c 2))
   \<and> (\<forall>n. c = of_int n / 2 \<and> \<bar>n\<bar> < 2 ^ 52 \<longrightarrow>
        (\<forall>i<21. strikes_disponibles c ! i = c + of_int (int i - 10) / 2))"
proof -
  have len: "length (strikes_disponibles c) = 21"
    by (simp add: strikes_disponibles_def del: upt_Suc)
  have lit: "\<forall>i<21. strikes_disponibles c ! i
          = py_round (fadd c (fmul (float_of_int (int i - 10)) (1 / 2))) 2"
    by (simp add: strikes_disponibles_nth)
  have half: "\<forall>i<21. strikes_disponibles c ! i = py_round (fadd c (of_int (int i - 10) / 2)) 2"
    using strikes_disponibles_nth_half by blast
  have first: "strikes_disponibles c ! 0 = py_round (fadd c (- 5)) 2"
    using strikes_disponibles_nth_half [of 0 c] by simp
  have last: "strikes_disponibles c ! 20 = py_round (fadd c 5) 2"
    using strikes_disponibles_nth_half [of 20 c] by simp
  have mid: "is_double c \<longrightarrow>
        strikes_disponibles c ! 10 = py_round c 2
        \<and> selectbox (strikes_disponibles c) 10 = Some (py_round c 2)"
  proof
    assume "is_double c"
    then have "fadd c 0 = c"
      by (simp add: is_double_def fadd_def)
    moreover have "strikes_disponibles c ! 10 = py_round (fadd c 0) 2"
      using strikes_disponibles_nth_half [of 10 c] by simp
    ultimately have "strikes_disponibles c ! 10 = py_round c 2"
      by (simp only:)
    then show "strikes_disponibles c ! 10 = py_round c 2
        \<and> selectbox (strikes_disponibles c) 10 = Some (py_round c 2)"
      by (simp add: selectbox_def len)
  qed
  have grid: "\<forall>n. c = of_int n / 2 \<and> \<bar>n\<bar> < 2 ^ 52 \<longrightarrow>
        (\<forall>i<21. strikes_disponibles c ! i = c + of_int (int i - 10) / 2)"
    using strikes_disponibles_half_int by blast
  show ?thesis
    using len lit half first last mid grid by blast
qed

text \<open>
  The steps are not 0.5 for every reference strike, as claim C2 has it. For 255.845 (the
  double nearest to it) the sum \<open>c + 0.5\<close> is rounded up to 256.35 where \<open>c\<close> itself is
  rounded down to 255.84, so the candidates at indices 10 and 11 are 0.51 apart.
\<close>

theorem C2_steps_counterexample:
  "is_double (9001745677067223 / 35184372088832)
   \<and> to_double (255845 / 1000) = 9001745677067223 / 35184372088832
   \<and> strikes_disponibles (9001745677067223 / 35184372088832) ! 10 = to_double (25584 / 100)
   \<and> strikes_disponibles (9001745677067223 / 35184372088832) ! 11 = to_double (25635 / 100)
   \<and> strikes_disponibles (9001745677067223 / 35184372088832) ! 11
       - strikes_disponibles (9001745677067223 / 35184372088832) ! 10 \<noteq> 1 / 2"
proof -
  let ?c = "9001745677067223 / 35184372088832 :: rat"
  have fixd: "to_double ?c = ?c"
    by code_simp
  have "\<bar>?c\<bar> < 2 ^ 10"
    by simp
  also have "(2::rat) ^ 10 < 2 ^ 1024"
    by (rule power_strict_increasing) simp_all
  finally have dbl: "is_double ?c"
    using fixd by (simp only: is_double_def simp_thms)
  have typed: "to_double (255845 / 1000) = ?c"
    by code_simp
  have "strikes_disponibles ?c ! 10 = py_round (fadd ?c (of_int (int 10 - 10) / 2)) 2"
    by (rule strikes_disponibles_nth_half) simp
  also have "\<dots> = py_round (fadd ?c 0) 2"
    by simp
  also have "\<dots> = 9001569755206779 / 35184372088832"
    by code_simp
  finally have s10: "strikes_disponibles ?c ! 10 = 9001569755206779 / 35184372088832" .
  have "strikes_disponibles ?c ! 11 = py_round (fadd ?c (of_int (int 11 - 10) / 2)) 2"
    by (rule strikes_disponibles_nth_half) simp
  also have "\<dots> = py_round (fadd ?c (1 / 2)) 2"
    by simp
  also have "\<dots> = 2254878446243021 / 8796093022208"
    by code_simp
  finally have s11: "strikes_disponibles ?c ! 11 = 2254878446243021 / 8796093022208" .
  have d10: "to_double (25584 / 100) = 9001569755206779 / 35184372088832"
    by code_simp
  have d11: "to_double (25635 / 100) = 2254878446243021 / 8796093022208"
    by code_simp
  have diff: "strikes_disponibles ?c ! 11 - strikes_disponibles ?c ! 10 \<noteq> 1 / 2"
    unfolding s10 s11 by simp
  show ?thesis
    using dbl typed s10 s11 d10 d11 diff by (simp only: simp_thms)
qed

theorem C2_strikes_disponibles_witness:
  "is_double (9001745677067223 / 35184372088832)
   \<and> (10::nat) < 21
   \<and> strikes_disponibles (9001745677067223 / 35184372088832) ! 10
       = py_round (9001745677067223 / 35184372088832) 2
   \<and> py_round (9001745677067223 / 35184372088832) 2 = 9001569755206779 / 35184372088832
   \<and> (301 / 2 :: rat) = of_int 301 / 2 \<and> \<bar>301 :: int\<bar> < 2 ^ 52 \<and> (3::nat) < 21
   \<and> strikes_disponibles (301 / 2) ! 3 = 147"
proof -
  let ?c = "9001745677067223 / 35184372088832 :: rat"
  have fixd: "to_double ?c = ?c"
    by code_simp
  have "\<bar>?c\<bar> < 2 ^ 10"
    by simp
  also have "(2::rat) ^ 10 < 2 ^ 1024"
    by (rule power_strict_increasing) simp_all
  finally have dbl: "is_double ?c"
    using fixd by (simp only: is_double_def simp_thms)
  have r: "py_round ?c 2 = 9001569755206779 / 35184372088832"
    by code_simp
  from C2_strikes_disponibles [of ?c] dbl
  have mid: "strikes_disponibles ?c ! 10 = py_round ?c 2"
    by blast
  have h1: "(301 / 2 :: rat) = of_int 301 / 2" by simp
  have h2: "\<bar>301 :: int\<bar> < 2 ^ 52" by simp
  have h3: "(3::nat) < 21" by simp
  from C2_strikes_disponibles [of "301 / 2"] h1 h2
  have "\<forall>i<21. strikes_disponibles (301 / 2) ! i = 301 / 2 + of_int (int i - 10) / 2"
    by blast
  with h3 have "strikes_disponibles (301 / 2) ! 3 = 301 / 2 + of_int (int 3 - 10) / 2"
    by blast
  then have grid: "strikes_disponibles (301 / 2) ! 3 = 147"
    by simp
  show ?thesis
    using dbl mid r h1 h2 h3 grid by (simp only: simp_thms)
qed

text \<open>
  Claim C3. Whenever the chain lookup returns the tables \<open>calls\<close> and \<open>puts\<close>, the rows
  selected are exactly the rows of the chosen table (\<open>calls\<close> when the option type is
  \<open>Call\<close>, otherwise \<open>puts\<close>) whose strike equals the chosen strike, in the table's order.
  With no such row the search shows the warning and neither a table nor a metric; with
  one, it shows the selected rows and the four metrics (last price, bid, ask, implied
  volatility) of the first selected row, and no table or metric of any other row.
\<close>

theorem C3_opcion_seleccionada:
  assumes "get_option_dataframes prov now (chain_cache c) accion fecha
             = ((Inr (calls, puts), evs), m)"
  shows "let datos = (if tipo = Some ''Call'' then calls else puts);
             seleccion = opcion_seleccionada datos k;
             log = fst (buscar_opcion prov now c accion fecha tipo k)
         in set seleccion = {fila \<in> set datos. Some (strike fila) = k}
            \<and> seleccion = filter (\<lambda>fila. Some (strike fila) = k) datos
            \<and> (seleccion = [] \<longrightarrow> log = evs @ [WarningSinCoincidencia])
            \<and> (seleccion \<noteq> [] \<longrightarrow>
                 (\<exists>resto. log = evs @
                    [SuccessEncontrada, Dataframe seleccion,
                     Subheader MetricasClave, Columns 4,
                     Metric UltimoPrecio (lastPrice (hd seleccion)),
                     Metric Bid (bid (hd seleccion)),
                     Metric Ask (ask (hd seleccion)),
                     Metric VolatilidadImplicita (impliedVolatility (hd seleccion)),
                     Subheader HistorialDePrecio] @ resto))
            \<and> (\<forall>filas. Dataframe filas \<in> set log \<longrightarrow> filas = seleccion \<and> seleccion \<noteq> [])
            \<and> (\<forall>nombre v. Metric nombre v \<in> set log \<longrightarrow>
                 seleccion \<noteq> [] \<and>
                 v = (case nombre of
                        UltimoPrecio \<Rightarrow> lastPrice (hd seleccion)
                      | Bid \<Rightarrow> bid (hd seleccion)
                      | Ask \<Rightarrow> ask (hd seleccion)
                      | VolatilidadImplicita \<Rightarrow> impliedVolatility (hd seleccion)))"
proof -
  define datos where "datos = (if tipo = Some ''Call'' then calls else puts)"
  define seleccion where "seleccion = opcion_seleccionada datos k"
  define log where "log = fst (buscar_opcion prov now c accion fecha tipo k)"
  have evs: "evs = [] \<or> evs = [Query (OptionChain accion fecha)]"
    using assms by (rule get_option_dataframes_events)
  have s1: "set seleccion = {fila \<in> set datos. Some (strike fila) = k}"
    by (simp add: seleccion_def opcion_seleccionada_def)
  have s2: "seleccion = filter (\<lambda>fila. Some (strike fila) = k) datos"
    by (simp add: seleccion_def opcion_seleccionada_def)
  have rest: "(seleccion = [] \<longrightarrow> log = evs @ [WarningSinCoincidencia])
            \<and> (seleccion \<noteq> [] \<longrightarrow>
                 (\<exists>resto. log = evs @
                    [SuccessEncontrada, Dataframe seleccion,
                     Subheader MetricasClave, Columns 4,
                     Metric UltimoPrecio (lastPrice (hd seleccion)),
                     Metric Bid (bid (hd seleccion)),
                     Metric Ask (ask (hd seleccion)),
                     Metric VolatilidadImplicita (impliedVolatility (hd seleccion)),
                     Subheader HistorialDePrecio] @ resto))
            \<and> (\<forall>filas. Dataframe filas \<in> set log \<longrightarrow> filas = seleccion \<and> seleccion \<noteq> [])
            \<and> (\<forall>nombre v. Metric nombre v \<in> set log \<longrightarrow>
                 seleccion \<noteq> [] \<and>
                 v = (case nombre of
                        UltimoPrecio \<Rightarrow> lastPrice (hd seleccion)
                      | Bid \<Rightarrow> bid (hd seleccion)
                      | Ask \<Rightarrow> ask (hd seleccion)
                      | VolatilidadImplicita \<Rightarrow> impliedVolatility (hd seleccion)))"
  proof (cases rule: buscar_body_cases [of prov now c accion fecha tipo k])
    case (raises e evs' m')
    with assms show ?thesis by simp
  next
    case (nomatch calls' puts' evs' m')
    from nomatch(1) assms have eq: "calls' = calls" "puts' = puts" "evs' = evs" "m' = m"
      by simp_all
    from nomatch(2) have sel: "seleccion = []"
      unfolding eq by (simp add: seleccion_def datos_def)
    from nomatch(3) have "log = evs @ [WarningSinCoincidencia]"
      unfolding eq by (simp add: log_def buscar_opcion_def)
    with sel evs show ?thesis by auto
  next
    case (found calls' puts' evs' m' fila resto history_df evs2 m2)
    from found(1) assms have eq: "calls' = calls" "puts' = puts" "evs' = evs" "m' = m"
      by simp_all
    from found(2) have sel: "seleccion = fila # resto"
      unfolding eq by (simp add: seleccion_def datos_def)
    have evs2: "evs2 = [] \<or> evs2 = [Query (History (contractSymbol fila) P1mo)]"
      using found(3) by (rule get_option_history_events)
    from found(4) have log: "log = evs @
                   [SuccessEncontrada, Dataframe (fila # resto),
                    Subheader MetricasClave, Columns 4,
                    Metric UltimoPrecio (lastPrice fila), Metric Bid (bid fila),
                    Metric Ask (ask fila),
                    Metric VolatilidadImplicita (impliedVolatility fila),
                    Subheader HistorialDePrecio] @ evs2 @ mostrar_historial history_df"
      unfolding eq by (simp add: log_def buscar_opcion_def)
    have a: "seleccion \<noteq> []" using sel by simp
    have b: "\<exists>resto. log = evs @
                    [SuccessEncontrada, Dataframe seleccion,
                     Subheader MetricasClave, Columns 4,
                     Metric UltimoPrecio (lastPrice (hd seleccion)),
                     Metric Bid (bid (hd seleccion)),
                     Metric Ask (ask (hd seleccion)),
                     Metric VolatilidadImplicita (impliedVolatility (hd seleccion)),
                     Subheader HistorialDePrecio] @ resto"
      unfolding log sel by simp
    have d: "\<forall>filas. Dataframe filas \<in> set log \<longrightarrow> filas = seleccion"
      using evs evs2 unfolding log sel
      by (auto simp: mostrar_historial_def split: if_splits)
    have m: "\<forall>nombre v. Metric nombre v \<in> set log \<longrightarrow>
                 v = (case nombre of
                        UltimoPrecio \<Rightarrow> lastPrice (hd seleccion)
                      | Bid \<Rightarrow> bid (hd seleccion)
                      | Ask \<Rightarrow> ask (hd seleccion)
                      | VolatilidadImplicita \<Rightarrow> impliedVolatility (hd seleccion))"
      using evs evs2 unfolding log sel
      by (auto simp: mostrar_historial_def split: if_splits)
    show ?thesis
      using a b d m by blast
  qed
  then show ?thesis
    using s1 s2 unfolding Let_def datos_def [symmetric] seleccion_def [symmetric] log_def [symmetric]
    by blast
qed

theorem C3_opcion_seleccionada_witness:
  "get_option_dataframes
     \<lparr>history = (\<lambda>s p. Inr [150]), options = (\<lambda>s. Inr [''2025-01-17'']),
      option_chain = (\<lambda>s f. Inr
        ([\<lparr>contractSymbol = ''AAPL250117C00145000'', strike = 145, lastPrice = 8,
           bid = 7, ask = 9, impliedVolatility = 1 / 5\<rparr>,
          \<lparr>contractSymbol = ''AAPL250117C00150000'', strike = 150, lastPrice = 5,
           bid = 4, ask = 6, impliedVolatility = 1 / 4\<rparr>],
         [\<lparr>contractSymbol = ''AAPL250117P00150000'', strike = 150, lastPrice = 3,
           bid = 2, ask = 4, impliedVolatility = 1 / 3\<rparr>]))\<rparr>
     0 Map.empty ''AAPL'' ''2025-01-17''
   = ((Inr ([\<lparr>contractSymbol = ''AAPL250117C00145000'', strike = 145, lastPrice = 8,
           bid = 7, ask = 9, impliedVolatility = 1 / 5\<rparr>,
          \<lparr>contractSymbol = ''AAPL250117C00150000'', strike = 150, lastPrice = 5,
           bid = 4, ask = 6, impliedVolatility = 1 / 4\<rparr>],
            [\<lparr>contractSymbol = ''AAPL250117P00150000'', strike = 150, lastPrice = 3,
           bid = 2, ask = 4, impliedVolatility = 1 / 3\<rparr>]),
       [Query (OptionChain ''AAPL'' ''2025-01-17'')]),
      [''2025-01-17'' \<mapsto>
         (([\<lparr>contractSymbol = ''AAPL250117C00145000'', strike = 145, lastPrice = 8,
           bid = 7, ask = 9, impliedVolatility = 1 / 5\<rparr>,
          \<lparr>contractSymbol = ''AAPL250117C00150000'', strike = 150, lastPrice = 5,
           bid = 4, ask = 6, impliedVolatility = 1 / 4\<rparr>],
           [\<lparr>contractSymbol = ''AAPL250117P00150000'', strike = 150, lastPrice = 3,
           bid = 2, ask = 4, impliedVolatility = 1 / 3\<rparr>]), 0)])
   \<and> opcion_seleccionada
        [\<lparr>contractSymbol = ''AAPL250117C00145000'', strike = 145, lastPrice = 8,
           bid = 7, ask = 9, impliedVolatility = 1 / 5\<rparr>,
          \<lparr>contractSymbol = ''AAPL250117C00150000'', strike = 150, lastPrice = 5,
           bid = 4, ask = 6, impliedVolatility = 1 / 4\<rparr>] (Some 150)
       = [\<lparr>contractSymbol = ''AAPL250117C00150000'', strike = 150, lastPrice = 5,
           bid = 4, ask = 6, impliedVolatility = 1 / 4\<rparr>]
   \<and> (\<exists>resto.
        fst (buscar_opcion
          \<lparr>history = (\<lambda>s p. Inr [150]), options = (\<lambda>s. Inr [''2025-01-17'']),
      option_chain = (\<lambda>s f. Inr
        ([\<lparr>contractSymbol = ''AAPL250117C00145000'', strike = 145, lastPrice = 8,
           bid = 7, ask = 9, impliedVolatility = 1 / 5\<rparr>,
          \<lparr>contractSymbol = ''AAPL250117C00150000'', strike = 150, lastPrice = 5,
           bid = 4, ask = 6, impliedVolatility = 1 / 4\<rparr>],
         [\<lparr>contractSymbol = ''AAPL250117P00150000'', strike = 150, lastPrice = 3,
           bid = 2, ask = 4, impliedVolatility = 1 / 3\<rparr>]))\<rparr>
          0 \<lparr>chain_cache = Map.empty, history_cache = Map.empty\<rparr> ''AAPL'' ''2025-01-17'' (Some ''Call'') (Some 150))
        = [Query (OptionChain ''AAPL'' ''2025-01-17'')] @
          [SuccessEncontrada,
           Dataframe [\<lparr>contractSymbol = ''AAPL250117C00150000'', strike = 150, lastPrice = 5,
           bid = 4, ask = 6, impliedVolatility = 1 / 4\<rparr>],
           Subheader MetricasClave, Columns 4,
           Metric UltimoPrecio 5, Metric Bid 4, Metric Ask 6,
           Metric VolatilidadImplicita (1 / 4),
           Subheader HistorialDePrecio] @ resto)"
proof -
  let ?prov = "\<lparr>history = (\<lambda>s p. Inr [150]), options = (\<lambda>s. Inr [''2025-01-17'']),
      option_chain = (\<lambda>s f. Inr
        ([\<lparr>contractSymbol = ''AAPL250117C00145000'', strike = 145, lastPrice = 8,
           bid = 7, ask = 9, impliedVolatility = 1 / 5\<rparr>,
          \<lparr>contractSymbol = ''AAPL250117C00150000'', strike = 150, lastPrice = 5,
           bid = 4, ask = 6, impliedVolatility = 1 / 4\<rparr>],
         [\<lparr>contractSymbol = ''AAPL250117P00150000'', strike = 150, lastPrice = 3,
           bid = 2, ask = 4, impliedVolatility = 1 / 3\<rparr>]))\<rparr>"
  let ?calls = "[\<lparr>contractSymbol = ''AAPL250117C00145000'', strike = 145, lastPrice = 8,
           bid = 7, ask = 9, impliedVolatility = 1 / 5\<rparr>,
          \<lparr>contractSymbol = ''AAPL250117C00150000'', strike = 150, lastPrice = 5,
           bid = 4, ask = 6, impliedVolatility = 1 / 4\<rparr>]"
  let ?puts = "[\<lparr>contractSymbol = ''AAPL250117P00150000'', strike = 150, lastPrice = 3,
           bid = 2, ask = 4, impliedVolatility = 1 / 3\<rparr>]"
  let ?row = "\<lparr>contractSymbol = ''AAPL250117C00150000'', strike = 150, lastPrice = 5,
           bid = 4, ask = 6, impliedVolatility = 1 / 4\<rparr>"
  let ?c = "\<lparr>chain_cache = Map.empty, history_cache = Map.empty\<rparr>"
  let ?m = "[''2025-01-17'' \<mapsto> ((?calls, ?puts), 0::nat)]"
  have h: "get_option_dataframes ?prov 0 (chain_cache ?c) ''AAPL'' ''2025-01-17''
             = ((Inr (?calls, ?puts), [Query (OptionChain ''AAPL'' ''2025-01-17'')]), ?m)"
    by (simp add: get_option_dataframes_def cache_data_def get_option_dataframes_uncached_def)
  have sel: "opcion_seleccionada ?calls (Some 150) = [?row]"
    by (simp add: opcion_seleccionada_def)
  note inst = C3_opcion_seleccionada [OF h, of "Some ''Call''" "Some 150"]
  from inst sel have "\<exists>resto.
        fst (buscar_opcion ?prov 0 ?c ''AAPL'' ''2025-01-17'' (Some ''Call'') (Some 150))
        = [Query (OptionChain ''AAPL'' ''2025-01-17'')] @
          [SuccessEncontrada, Dataframe [?row],
           Subheader MetricasClave, Columns 4,
           Metric UltimoPrecio 5, Metric Bid 4, Metric Ask 6,
           Metric VolatilidadImplicita (1 / 4),
           Subheader HistorialDePrecio] @ resto"
    by (simp add: Let_def)
  moreover from h have "get_option_dataframes ?prov 0 Map.empty ''AAPL'' ''2025-01-17''
             = ((Inr (?calls, ?puts), [Query (OptionChain ''AAPL'' ''2025-01-17'')]), ?m)"
    by simp
  ultimately show ?thesis
    using sel by blast
qed

text \<open>
  Claim C4. When the one-day price history of the (uppercased, non-empty) ticker is
  empty, the run consists of the page header, the text input, the history query and
  the error message, and it halts there: nothing after the ticker check is rendered or
  queried (not even the footer), and the cache is untouched.
\<close>

theorem C4_invalid_ticker_stops:
  assumes "upper (ticker_text inp) \<noteq> []"
    and "history prov (upper (ticker_text inp)) P1d = Inr []"
  shows "script prov now inp c =
           (([SetPageConfig, Title, TextInput,
              Query (History (upper (ticker_text inp)) P1d),
              ErrorTickerNoValido (upper (ticker_text inp))], Stopped), c)"
  using assms
  by (simp add: script_def Let_def precio_actual_def get_ticker_object_def)

theorem C4_invalid_ticker_stops_witness:
  "upper ''zzzz'' \<noteq> []
   \<and> history \<lparr>history = (\<lambda>s p. Inr []), options = (\<lambda>s. Inr [''2025-01-17'']),
                option_chain = (\<lambda>s f. Inr ([], []))\<rparr> (upper ''zzzz'') P1d = Inr []
   \<and> script \<lparr>history = (\<lambda>s p. Inr []), options = (\<lambda>s. Inr [''2025-01-17'']),
               option_chain = (\<lambda>s f. Inr ([], []))\<rparr> 0
        \<lparr>ticker_text = ''zzzz'', strike_input = None, strike_index = 10,
         fecha_index = 0, tipo_index = 0, button = True\<rparr>
        \<lparr>chain_cache = Map.empty, history_cache = Map.empty\<rparr>
       = (([SetPageConfig, Title, TextInput, Query (History ''ZZZZ'' P1d),
            ErrorTickerNoValido ''ZZZZ''], Stopped),
          \<lparr>chain_cache = Map.empty, history_cache = Map.empty\<rparr>)"
proof -
  have up: "upper ''zzzz'' = ''ZZZZ''"
    by code_simp
  show ?thesis
    using C4_invalid_ticker_stops
      [of "\<lparr>ticker_text = ''zzzz'', strike_input = None, strike_index = 10,
           fecha_index = 0, tipo_index = 0, button = True\<rparr>"
          "\<lparr>history = (\<lambda>s p. Inr []), options = (\<lambda>s. Inr [''2025-01-17'']),
           option_chain = (\<lambda>s f. Inr ([], []))\<rparr>"
          0 "\<lparr>chain_cache = Map.empty, history_cache = Map.empty\<rparr>"]
    by (simp add: up)
qed

text \<open>
  Claim C5. When the provider's one-month history call raises, the fetch function
  returns the empty table instead; the cached fetch function therefore never raises;
  an empty history gives the warning and a non-empty one the line chart of the
  \<open>Close\<close> column; and that is what the search renders last, after the messages and
  metrics of the selected row, for the history the fetch function returned.
\<close>

theorem C5_option_history_swallowed:
  "(history prov contract_symbol P1mo = Inl e \<longrightarrow>
      get_option_history_uncached prov contract_symbol
        = (Inr [], [Query (History contract_symbol P1mo)]))
   \<and> (\<forall>h. history prov contract_symbol P1mo = Inr h \<longrightarrow>
      get_option_history_uncached prov contract_symbol
        = (Inr h, [Query (History contract_symbol P1mo)]))
   \<and> (\<exists>history_df evs m.
        get_option_history prov now memo contract_symbol = ((Inr history_df, evs), m))
   \<and> mostrar_historial [] = [WarningSinHistorial]
   \<and> (\<forall>history_df. history_df \<noteq> [] \<longrightarrow>
        mostrar_historial history_df = [LineChart history_df])
   \<and> (\<forall>calls puts evs m fila resto history_df evs2 m2.
        get_option_dataframes prov now (chain_cache c) accion fecha = ((Inr (calls, puts), evs), m)
        \<and> opcion_seleccionada (if tipo = Some ''Call'' then calls else puts) k = fila # resto
        \<and> get_option_history prov now (history_cache (c\<lparr>chain_cache := m\<rparr>)) (contractSymbol fila)
              = ((Inr history_df, evs2), m2)
        \<longrightarrow> (\<exists>antes. fst (buscar_opcion prov now c accion fecha tipo k)
              = antes @ evs2 @
                (if history_df = [] then [WarningSinHistorial] else [LineChart history_df])))"
proof -
  have a: "history prov contract_symbol P1mo = Inl e \<longrightarrow>
      get_option_history_uncached prov contract_symbol
        = (Inr [], [Query (History contract_symbol P1mo)])"
    by (simp add: get_option_history_uncached_def)
  have b: "\<forall>h. history prov contract_symbol P1mo = Inr h \<longrightarrow>
      get_option_history_uncached prov contract_symbol
        = (Inr h, [Query (History contract_symbol P1mo)])"
    by (simp add: get_option_history_uncached_def)
  have "\<exists>v. fst (get_option_history_uncached prov contract_symbol) = Inr v"
    by (simp add: get_option_history_uncached_def split: sum.splits)
  then have c: "\<exists>history_df evs m.
        get_option_history prov now memo contract_symbol = ((Inr history_df, evs), m)"
    unfolding get_option_history_def by (rule cache_data_never_raises)
  have d: "mostrar_historial [] = [WarningSinHistorial]"
    by (simp add: mostrar_historial_def)
  have e: "\<forall>history_df. history_df \<noteq> [] \<longrightarrow>
        mostrar_historial history_df = [LineChart history_df]"
    by (simp add: mostrar_historial_def)
  have f: "\<forall>calls puts evs m fila resto history_df evs2 m2.
        get_option_dataframes prov now (chain_cache c) accion fecha = ((Inr (calls, puts), evs), m)
        \<and> opcion_seleccionada (if tipo = Some ''Call'' then calls else puts) k = fila # resto
        \<and> get_option_history prov now (history_cache (c\<lparr>chain_cache := m\<rparr>)) (contractSymbol fila)
              = ((Inr history_df, evs2), m2)
        \<longrightarrow> (\<exists>antes. fst (buscar_opcion prov now c accion fecha tipo k)
              = antes @ evs2 @
                (if history_df = [] then [WarningSinHistorial] else [LineChart history_df]))"
  proof (intro allI impI, elim conjE)
    fix calls puts evs m fila resto history_df evs2 m2
    assume 1: "get_option_dataframes prov now (chain_cache c) accion fecha = ((Inr (calls, puts), evs), m)"
      and 2: "opcion_seleccionada (if tipo = Some ''Call'' then calls else puts) k = fila # resto"
      and 3: "get_option_history prov now (history_cache (c\<lparr>chain_cache := m\<rparr>)) (contractSymbol fila)
              = ((Inr history_df, evs2), m2)"
    have "fst (buscar_opcion prov now c accion fecha tipo k)
          = (evs @ [SuccessEncontrada, Dataframe (fila # resto),
                    Subheader MetricasClave, Columns 4,
                    Metric UltimoPrecio (lastPrice fila), Metric Bid (bid fila),
                    Metric Ask (ask fila),
                    Metric VolatilidadImplicita (impliedVolatility fila),
                    Subheader HistorialDePrecio]) @ evs2 @ mostrar_historial history_df"
      using 1 2 3 by (simp add: buscar_opcion_def buscar_body_def Let_def)
    then show "\<exists>antes. fst (buscar_opcion prov now c accion fecha tipo k)
              = antes @ evs2 @
                (if history_df = [] then [WarningSinHistorial] else [LineChart history_df])"
      unfolding mostrar_historial_def by (intro exI [where x = "evs @ _"]) auto
  qed
  show ?thesis
    using a b c d e f by blast
qed

theorem C5_option_history_swallowed_witness:
  "history \<lparr>history = (\<lambda>s p. Inl (OtherException ''timeout'')), options = (\<lambda>s. Inr []),
             option_chain = (\<lambda>s f. Inr ([], []))\<rparr> ''AAPL250117C00150000'' P1mo
     = Inl (OtherException ''timeout'')
   \<and> get_option_history_uncached
        \<lparr>history = (\<lambda>s p. Inl (OtherException ''timeout'')), options = (\<lambda>s. Inr []),
         option_chain = (\<lambda>s f. Inr ([], []))\<rparr> ''AAPL250117C00150000''
     = (Inr [], [Query (History ''AAPL250117C00150000'' P1mo)])
   \<and> [3 / 2, 2] \<noteq> ([] :: rat list)
   \<and> mostrar_historial [3 / 2, 2] = [LineChart [3 / 2, 2]]"
proof -
  let ?prov = "\<lparr>history = (\<lambda>s p. Inl (OtherException ''timeout'')), options = (\<lambda>s. Inr []),
                option_chain = (\<lambda>s f. Inr ([], []))\<rparr>"
  note inst = C5_option_history_swallowed
    [of ?prov "''AAPL250117C00150000''" "OtherException ''timeout''"]
  have h: "history ?prov ''AAPL250117C00150000'' P1mo = Inl (OtherException ''timeout'')"
    by simp
  from inst h have a: "get_option_history_uncached ?prov ''AAPL250117C00150000''
     = (Inr [], [Query (History ''AAPL250117C00150000'' P1mo)])"
    by blast
  from inst have "\<forall>history_df. history_df \<noteq> [] \<longrightarrow>
        mostrar_historial history_df = [LineChart history_df]"
    by blast
  then have b: "mostrar_historial [3 / 2, 2] = [LineChart [3 / 2, 2]]"
    by simp
  show ?thesis
    using h a b by simp
qed



text \<open>
  Claim C7 says that the two cached fetch functions are keyed by their arguments, so
  that a call served from the cache returns what the uncached function returns. The
  option-chain lookup does not: its ticker parameter is left out of the key, so an
  entry stored for one ticker is served for every ticker with the same date. With the
  chain of AAPL for 2025-01-17 stored at time 0, the lookup for MSFT and the same date
  at time 60 returns the chain of AAPL and queries nothing, while the uncached function
  returns the chain of MSFT; and a run for ''msft'' one minute after a run for ''aapl''
  shows the AAPL contract and its metrics under the MSFT ticker.
\<close>

theorem C7_cache_key_ignores_ticker:
  "get_option_dataframes
     \<lparr>history = (\<lambda>s p. Inr [150]), options = (\<lambda>s. Inr [''2025-01-17'']),
      option_chain = (\<lambda>s f. if s = ''AAPL''
         then Inr ([\<lparr>contractSymbol = ''AAPL250117C00150000'', strike = 150, lastPrice = 5,
                     bid = 4, ask = 6, impliedVolatility = 1 / 4\<rparr>], [])
         else Inr ([\<lparr>contractSymbol = ''MSFT250117C00150000'', strike = 150, lastPrice = 270,
                     bid = 269, ask = 271, impliedVolatility = 1 / 2\<rparr>], []))\<rparr>
     60
     [''2025-01-17'' \<mapsto>
        (([\<lparr>contractSymbol = ''AAPL250117C00150000'', strike = 150, lastPrice = 5,
            bid = 4, ask = 6, impliedVolatility = 1 / 4\<rparr>], []), 0)]
     ''MSFT'' ''2025-01-17''
   = ((Inr ([\<lparr>contractSymbol = ''AAPL250117C00150000'', strike = 150, lastPrice = 5,
               bid = 4, ask = 6, impliedVolatility = 1 / 4\<rparr>], []), []),
      [''2025-01-17'' \<mapsto>
        (([\<lparr>contractSymbol = ''AAPL250117C00150000'', strike = 150, lastPrice = 5,
            bid = 4, ask = 6, impliedVolatility = 1 / 4\<rparr>], []), 0)])
   \<and> get_option_dataframes_uncached
     \<lparr>history = (\<lambda>s p. Inr [150]), options = (\<lambda>s. Inr [''2025-01-17'']),
      option_chain = (\<lambda>s f. if s = ''AAPL''
         then Inr ([\<lparr>contractSymbol = ''AAPL250117C00150000'', strike = 150, lastPrice = 5,
                     bid = 4, ask = 6, impliedVolatility = 1 / 4\<rparr>], [])
         else Inr ([\<lparr>contractSymbol = ''MSFT250117C00150000'', strike = 150, lastPrice = 270,
                     bid = 269, ask = 271, impliedVolatility = 1 / 2\<rparr>], []))\<rparr>
     ''MSFT'' ''2025-01-17''
   = (Inr ([\<lparr>contractSymbol = ''MSFT250117C00150000'', strike = 150, lastPrice = 270,
              bid = 269, ask = 271, impliedVolatility = 1 / 2\<rparr>], []),
      [Query (OptionChain ''MSFT'' ''2025-01-17'')])
   \<and> fst (script
     \<lparr>history = (\<lambda>s p. Inr [150]), options = (\<lambda>s. Inr [''2025-01-17'']),
      option_chain = (\<lambda>s f. if s = ''AAPL''
         then Inr ([\<lparr>contractSymbol = ''AAPL250117C00150000'', strike = 150, lastPrice = 5,
                     bid = 4, ask = 6, impliedVolatility = 1 / 4\<rparr>], [])
         else Inr ([\<lparr>contractSymbol = ''MSFT250117C00150000'', strike = 150, lastPrice = 270,
                     bid = 269, ask = 271, impliedVolatility = 1 / 2\<rparr>], []))\<rparr>
     60
     \<lparr>ticker_text = ''msft'', strike_input = Some 150, strike_index = 10,
      fecha_index = 0, tipo_index = 0, button = True\<rparr>
     (snd (script
       \<lparr>history = (\<lambda>s p. Inr [150]), options = (\<lambda>s. Inr [''2025-01-17'']),
        option_chain = (\<lambda>s f. if s = ''AAPL''
           then Inr ([\<lparr>contractSymbol = ''AAPL250117C00150000'', strike = 150, lastPrice = 5,
                       bid = 4, ask = 6, impliedVolatility = 1 / 4\<rparr>], [])
           else Inr ([\<lparr>contractSymbol = ''MSFT250117C00150000'', strike = 150, lastPrice = 270,
                       bid = 269, ask = 271, impliedVolatility = 1 / 2\<rparr>], []))\<rparr>
       0
       \<lparr>ticker_text = ''aapl'', strike_input = Some 150, strike_index = 10,
        fecha_index = 0, tipo_index = 0, button = True\<rparr>
       \<lparr>chain_cache = Map.empty, history_cache = Map.empty\<rparr>)))
   = ([SetPageConfig, Title, TextInput, Query (History ''MSFT'' P1d),
       SuccessPrecio ''MSFT'' 150, Columns 3, Subheader ElegirStrike, NumberInput 150,
       SelectboxStrike
        [145, 291 / 2, 146, 293 / 2, 147, 295 / 2, 148, 297 / 2, 149, 299 / 2,
         150, 301 / 2, 151, 303 / 2, 152, 305 / 2, 153, 307 / 2, 154, 309 / 2, 155],
       Subheader ElegirVencimiento, Query (Options ''MSFT''),
       SelectboxFecha [''2025-01-17''], Subheader ElegirTipo,
       SelectboxTipo [''Call'', ''Put''], Button,
       InfoBuscando (Some ''Call'') ''MSFT'' ''2025-01-17'' (Some 150),
       SuccessEncontrada,
       Dataframe
        [\<lparr>contractSymbol = ''AAPL250117C00150000'', strike = 150, lastPrice = 5,
           bid = 4, ask = 6, impliedVolatility = 1 / 4\<rparr>],
       Subheader MetricasClave, Columns 4, Metric UltimoPrecio 5, Metric Bid 4,
       Metric Ask 6, Metric VolatilidadImplicita (1 / 4),
       Subheader HistorialDePrecio, LineChart [150], Markdown, Write],
      Completed)"
proof (intro conjI)
  show "get_option_dataframes
     \<lparr>history = (\<lambda>s p. Inr [150]), options = (\<lambda>s. Inr [''2025-01-17'']),
      option_chain = (\<lambda>s f. if s = ''AAPL''
         then Inr ([\<lparr>contractSymbol = ''AAPL250117C00150000'', strike = 150, lastPrice = 5,
                     bid = 4, ask = 6, impliedVolatility = 1 / 4\<rparr>], [])
         else Inr ([\<lparr>contractSymbol = ''MSFT250117C00150000'', strike = 150, lastPrice = 270,
                     bid = 269, ask = 271, impliedVolatility = 1 / 2\<rparr>], []))\<rparr>
     60
     [''2025-01-17'' \<mapsto>
        (([\<lparr>contractSymbol = ''AAPL250117C00150000'', strike = 150, lastPrice = 5,
            bid = 4, ask = 6, impliedVolatility = 1 / 4\<rparr>], []), 0)]
     ''MSFT'' ''2025-01-17''
   = ((Inr ([\<lparr>contractSymbol = ''AAPL250117C00150000'', strike = 150, lastPrice = 5,
               bid = 4, ask = 6, impliedVolatility = 1 / 4\<rparr>], []), []),
      [''2025-01-17'' \<mapsto>
        (([\<lparr>contractSymbol = ''AAPL250117C00150000'', strike = 150, lastPrice = 5,
            bid = 4, ask = 6, impliedVolatility = 1 / 4\<rparr>], []), 0)])"
    by (simp add: get_option_dataframes_def cache_data_def)
next
  show "get_option_dataframes_uncached
     \<lparr>history = (\<lambda>s p. Inr [150]), options = (\<lambda>s. Inr [''2025-01-17'']),
      option_chain = (\<lambda>s f. if s = ''AAPL''
         then Inr ([\<lparr>contractSymbol = ''AAPL250117C00150000'', strike = 150, lastPrice = 5,
                     bid = 4, ask = 6, impliedVolatility = 1 / 4\<rparr>], [])
         else Inr ([\<lparr>contractSymbol = ''MSFT250117C00150000'', strike = 150, lastPrice = 270,
                     bid = 269, ask = 271, impliedVolatility = 1 / 2\<rparr>], []))\<rparr>
     ''MSFT'' ''2025-01-17''
   = (Inr ([\<lparr>contractSymbol = ''MSFT250117C00150000'', strike = 150, lastPrice = 270,
              bid = 269, ask = 271, impliedVolatility = 1 / 2\<rparr>], []),
      [Query (OptionChain ''MSFT'' ''2025-01-17'')])"
    by (simp add: get_option_dataframes_uncached_def)
next
  show "fst (script
     \<lparr>history = (\<lambda>s p. Inr [150]), options = (\<lambda>s. Inr [''2025-01-17'']),
      option_chain = (\<lambda>s f. if s = ''AAPL''
         then Inr ([\<lparr>contractSymbol = ''AAPL250117C00150000'', strike = 150, lastPrice = 5,
                     bid = 4, ask = 6, impliedVolatility = 1 / 4\<rparr>], [])
         else Inr ([\<lparr>contractSymbol = ''MSFT250117C00150000'', strike = 150, lastPrice = 270,
                     bid = 269, ask = 271, impliedVolatility = 1 / 2\<rparr>], []))\<rparr>
     60
     \<lparr>ticker_text = ''msft'', strike_input = Some 150, strike_index = 10,
      fecha_index = 0, tipo_index = 0, button = True\<rparr>
     (snd (script
       \<lparr>history = (\<lambda>s p. Inr [150]), options = (\<lambda>s. Inr [''2025-01-17'']),
        option_chain = (\<lambda>s f. if s = ''AAPL''
           then Inr ([\<lparr>contractSymbol = ''AAPL250117C00150000'', strike = 150, lastPrice = 5,
                       bid = 4, ask = 6, impliedVolatility = 1 / 4\<rparr>], [])
           else Inr ([\<lparr>contractSymbol = ''MSFT250117C00150000'', strike = 150, lastPrice = 270,
                       bid = 269, ask = 271, impliedVolatility = 1 / 2\<rparr>], []))\<rparr>
       0
       \<lparr>ticker_text = ''aapl'', strike_input = Some 150, strike_index = 10,
        fecha_index = 0, tipo_index = 0, button = True\<rparr>
       \<lparr>chain_cache = Map.empty, history_cache = Map.empty\<rparr>)))
   = ([SetPageConfig, Title, TextInput, Query (History ''MSFT'' P1d),
       SuccessPrecio ''MSFT'' 150, Columns 3, Subheader ElegirStrike, NumberInput 150,
       SelectboxStrike
        [145, 291 / 2, 146, 293 / 2, 147, 295 / 2, 148, 297 / 2, 149, 299 / 2,
         150, 301 / 2, 151, 303 / 2, 152, 305 / 2, 153, 307 / 2, 154, 309 / 2, 155],
       Subheader ElegirVencimiento, Query (Options ''MSFT''),
       SelectboxFecha [''2025-01-17''], Subheader ElegirTipo,
       SelectboxTipo [''Call'', ''Put''], Button,
       InfoBuscando (Some ''Call'') ''MSFT'' ''2025-01-17'' (Some 150),
       SuccessEncontrada,
       Dataframe
        [\<lparr>contractSymbol = ''AAPL250117C00150000'', strike = 150, lastPrice = 5,
           bid = 4, ask = 6, impliedVolatility = 1 / 4\<rparr>],
       Subheader MetricasClave, Columns 4, Metric UltimoPrecio 5, Metric Bid 4,
       Metric Ask 6, Metric VolatilidadImplicita (1 / 4),
       Subheader HistorialDePrecio, LineChart [150], Markdown, Write],
      Completed)"
  proof -
    have up1: "upper ''aapl'' = ''AAPL''"
      by code_simp
    have up2: "upper ''msft'' = ''MSFT''"
      by code_simp
    show ?thesis
      by (simp add: script_def Let_def up1 up2 get_ticker_object_def precio_actual_def
          strikes_disponibles_150 selectbox_def vencimiento_def fechas_a_mostrar_def
          buscar_opcion_def buscar_body_def get_option_dataframes_def
          get_option_dataframes_uncached_def get_option_history_def
          get_option_history_uncached_def cache_data_def opcion_seleccionada_def
          mostrar_historial_def)
  qed
qed

theorem C7_cache_key_ignores_ticker_witness:
  "fst (fst (get_option_dataframes
     \<lparr>history = (\<lambda>s p. Inr [150]), options = (\<lambda>s. Inr [''2025-01-17'']),
      option_chain = (\<lambda>s f. if s = ''AAPL''
         then Inr ([\<lparr>contractSymbol = ''AAPL250117C00150000'', strike = 150, lastPrice = 5,
                     bid = 4, ask = 6, impliedVolatility = 1 / 4\<rparr>], [])
         else Inr ([\<lparr>contractSymbol = ''MSFT250117C00150000'', strike = 150, lastPrice = 270,
                     bid = 269, ask = 271, impliedVolatility = 1 / 2\<rparr>], []))\<rparr>
     60
     [''2025-01-17'' \<mapsto>
        (([\<lparr>contractSymbol = ''AAPL250117C00150000'', strike = 150, lastPrice = 5,
            bid = 4, ask = 6, impliedVolatility = 1 / 4\<rparr>], []), 0)]
     ''MSFT'' ''2025-01-17''))
   \<noteq> fst (get_option_dataframes_uncached
     \<lparr>history = (\<lambda>s p. Inr [150]), options = (\<lambda>s. Inr [''2025-01-17'']),
      option_chain = (\<lambda>s f. if s = ''AAPL''
         then Inr ([\<lparr>contractSymbol = ''AAPL250117C00150000'', strike = 150, lastPrice = 5,
                     bid = 4, ask = 6, impliedVolatility = 1 / 4\<rparr>], [])
         else Inr ([\<lparr>contractSymbol = ''MSFT250117C00150000'', strike = 150, lastPrice = 270,
                     bid = 269, ask = 271, impliedVolatility = 1 / 2\<rparr>], []))\<rparr>
     ''MSFT'' ''2025-01-17'')"
proof -
  note inst = C7_cache_key_ignores_ticker
  from inst [THEN conjunct1] inst [THEN conjunct2, THEN conjunct1]
  show ?thesis
    by (simp only: fst_conv) simp
qed
text \<open>
  Claim C8. The displayed list is the input read at a strictly increasing list of valid
  indices (the displayed list of \<open>[0..<length xs]\<close>): so it is a subsequence of the
  input in the input's order, every displayed date occurs in the input, the sampled
  indices are distinct (no date is taken twice; distinct inputs give distinct
  displayed dates), and an input of 10 or fewer dates is displayed unchanged.
\<close>

theorem C8_fechas_a_mostrar_subsequence:
  "fechas_a_mostrar xs = map ((!) xs) (fechas_a_mostrar [0..<length xs])
   \<and> sorted_wrt (<) (fechas_a_mostrar [0..<length xs])
   \<and> distinct (fechas_a_mostrar [0..<length xs])
   \<and> (\<forall>j \<in> set (fechas_a_mostrar [0..<length xs]). j < length xs)
   \<and> subseq (fechas_a_mostrar xs) xs
   \<and> set (fechas_a_mostrar xs) \<subseteq> set xs
   \<and> (distinct xs \<longrightarrow> distinct (fechas_a_mostrar xs))
   \<and> (length xs \<le> 10 \<longrightarrow> fechas_a_mostrar xs = xs)"
proof -
  let ?js = "fechas_a_mostrar [0..<length xs]"
  have nth: "fechas_a_mostrar xs = map ((!) xs) ?js"
    by (rule fechas_a_mostrar_nth)
  have srt: "sorted_wrt (<) ?js"
    by (rule fechas_indices_sorted)
  have dst: "distinct ?js"
    using srt by (simp add: strict_sorted_iff)
  have bnd: "\<forall>j \<in> set ?js. j < length xs"
    using fechas_indices_bound by blast
  have "subseq (map ((!) xs) ?js) (drop 0 xs)"
    by (rule subseq_nth_sorted [OF srt]) (use bnd in simp)
  then have sub: "subseq (fechas_a_mostrar xs) xs"
    using nth by simp
  have mem: "set (fechas_a_mostrar xs) \<subseteq> set xs"
    using nth bnd by auto
  have dxs: "distinct xs \<longrightarrow> distinct (fechas_a_mostrar xs)"
    using nth dst bnd by (auto simp: distinct_map inj_on_def nth_eq_iff_index_eq)
  have short: "length xs \<le> 10 \<longrightarrow> fechas_a_mostrar xs = xs"
    by (simp add: fechas_a_mostrar_def Let_def)
  show ?thesis
    using nth srt dst bnd sub mem dxs short by blast
qed

theorem C8_fechas_a_mostrar_witness:
  "length [''2025-01-17'', ''2025-02-21'', ''2025-03-21''] \<le> 10
   \<and> distinct [''2025-01-17'', ''2025-02-21'', ''2025-03-21'']
   \<and> fechas_a_mostrar [''2025-01-17'', ''2025-02-21'', ''2025-03-21'']
       = [''2025-01-17'', ''2025-02-21'', ''2025-03-21'']
   \<and> distinct (fechas_a_mostrar [''2025-01-17'', ''2025-02-21'', ''2025-03-21''])
   \<and> 2 \<in> set (fechas_a_mostrar [0..<length [''2025-01-17'', ''2025-02-21'', ''2025-03-21'']])
   \<and> 2 < length [''2025-01-17'', ''2025-02-21'', ''2025-03-21'']"
proof -
  let ?xs = "[''2025-01-17'', ''2025-02-21'', ''2025-03-21'']"
  note inst = C8_fechas_a_mostrar_subsequence [of ?xs]
  have len: "length ?xs \<le> 10" by simp
  have dst: "distinct ?xs" by simp
  have mem: "2 \<in> set (fechas_a_mostrar [0..<length ?xs])"
    by (simp add: fechas_a_mostrar_def)
  from inst have a: "distinct ?xs \<longrightarrow> distinct (fechas_a_mostrar ?xs)"
    and b: "length ?xs \<le> 10 \<longrightarrow> fechas_a_mostrar ?xs = ?xs"
    and c: "\<forall>j \<in> set (fechas_a_mostrar [0..<length ?xs]). j < length ?xs"
    by blast+
  from c mem have "2 < length ?xs" by blast
  then show ?thesis
    using a b mem len dst by blast
qed

text \<open>
  Claim C9. A run depends on the typed ticker through its uppercased form only: typing
  any text with the same uppercased form gives the same log, the same outcome and the
  same cache. Every query made for a ticker (one-day price history, expiration dates,
  option chain) is made for the uppercased text.
\<close>

theorem C9_ticker_uppercased:
  assumes "upper t' = upper (ticker_text inp)"
  shows "script prov now (inp\<lparr>ticker_text := t'\<rparr>) c = script prov now inp c
    \<and> (\<forall>ev \<in> set (fst (fst (script prov now inp c))).
          \<forall>s. ticker_consultado ev = Some s \<longrightarrow> s = upper (ticker_text inp))"
proof -
  have "script prov now (inp\<lparr>ticker_text := t'\<rparr>) c = script prov now inp c"
    using assms
    by (simp add: script_def Let_def
        cong: sum.case_cong option.case_cong prod.case_cong if_cong)
  moreover have "\<forall>ev \<in> set (fst (fst (script prov now inp c))).
          \<forall>s. ticker_consultado ev = Some s \<longrightarrow> s = upper (ticker_text inp)"
    using script_tickers by blast
  ultimately show ?thesis by blast
qed

theorem C9_ticker_uppercased_witness:
  "upper ''aapl'' = upper ''AAPL''
   \<and> script
        \<lparr>history = (\<lambda>s p. Inr []), options = (\<lambda>s. Inr []),
      option_chain = (\<lambda>s f. Inr ([], []))\<rparr>
        0
        \<lparr>ticker_text = ''aapl'', strike_input = None, strike_index = 10,
      fecha_index = 0, tipo_index = 0, button = False\<rparr>
        \<lparr>chain_cache = Map.empty, history_cache = Map.empty\<rparr>
     = script
        \<lparr>history = (\<lambda>s p. Inr []), options = (\<lambda>s. Inr []),
      option_chain = (\<lambda>s f. Inr ([], []))\<rparr>
        0
        \<lparr>ticker_text = ''AAPL'', strike_input = None, strike_index = 10,
      fecha_index = 0, tipo_index = 0, button = False\<rparr>
        \<lparr>chain_cache = Map.empty, history_cache = Map.empty\<rparr>
   \<and> Query (History ''AAPL'' P1d)
       \<in> set (fst (fst (script
        \<lparr>history = (\<lambda>s p. Inr []), options = (\<lambda>s. Inr []),
      option_chain = (\<lambda>s f. Inr ([], []))\<rparr>
        0
        \<lparr>ticker_text = ''AAPL'', strike_input = None, strike_index = 10,
      fecha_index = 0, tipo_index = 0, button = False\<rparr>
        \<lparr>chain_cache = Map.empty, history_cache = Map.empty\<rparr>)))
   \<and> ''AAPL'' = upper ''AAPL''"
proof -
  let ?prov = "\<lparr>history = (\<lambda>s p. Inr []), options = (\<lambda>s. Inr []),
      option_chain = (\<lambda>s f. Inr ([], []))\<rparr>"
  let ?inp = "\<lparr>ticker_text = ''AAPL'', strike_input = None, strike_index = 10,
      fecha_index = 0, tipo_index = 0, button = False\<rparr>"
  let ?c = "\<lparr>chain_cache = Map.empty, history_cache = Map.empty\<rparr>"
  have up1: "upper ''aapl'' = ''AAPL''"
    by code_simp
  have up2: "upper ''AAPL'' = ''AAPL''"
    by code_simp
  have h: "upper ''aapl'' = upper (ticker_text ?inp)"
    by (simp add: up1 up2)
  note inst = C9_ticker_uppercased [OF h, of ?prov 0 ?c]
  from inst have eq: "script ?prov 0 (?inp\<lparr>ticker_text := ''aapl''\<rparr>) ?c = script ?prov 0 ?inp ?c"
    by blast
  have log: "fst (fst (script ?prov 0 ?inp ?c))
      = [SetPageConfig, Title, TextInput, Query (History ''AAPL'' P1d),
         ErrorTickerNoValido ''AAPL'']"
    by (simp add: script_def Let_def up2 get_ticker_object_def precio_actual_def)
  then have mem: "Query (History ''AAPL'' P1d) \<in> set (fst (fst (script ?prov 0 ?inp ?c)))"
    by simp
  have tc: "ticker_consultado (Query (History ''AAPL'' P1d)) = Some ''AAPL''"
    by simp
  from inst mem tc have "''AAPL'' = upper (ticker_text ?inp)"
    by blast
  then have u: "''AAPL'' = upper ''AAPL''"
    by simp
  from h have h': "upper ''aapl'' = upper ''AAPL''" by simp
  from eq have eq': "script ?prov 0
        \<lparr>ticker_text = ''aapl'', strike_input = None, strike_index = 10,
      fecha_index = 0, tipo_index = 0, button = False\<rparr> ?c = script ?prov 0 ?inp ?c"
    by simp
  show ?thesis
    using h' eq' mem u by blast
qed

text \<open>
  Claim C10. For a valid ticker (the price lookup returns a price) for which the provider
  reports no expiration date, the date column shows the warning and leaves the chosen
  date \<open>None\<close>; the button is rendered, but the run queries no option chain, shows no
  search message and renders nothing of the lookup-and-display block; it completes and
  leaves the cache as it was.
\<close>

theorem C10_no_expiration_dates:
  assumes "upper (ticker_text inp) \<noteq> []"
    and "precio_actual prov (upper (ticker_text inp)) = Inr precio"
    and "options prov (upper (ticker_text inp)) = Inr []"
  shows "vencimiento (upper (ticker_text inp)) [] (fecha_index inp)
           = ([WarningSinOpciones (upper (ticker_text inp))], None)
    \<and> snd (fst (script prov now inp c)) = Completed
    \<and> snd (script prov now inp c) = c
    \<and> WarningSinOpciones (upper (ticker_text inp)) \<in> set (fst (fst (script prov now inp c)))
    \<and> Button \<in> set (fst (fst (script prov now inp c)))
    \<and> (\<forall>s f. Query (OptionChain s f) \<notin> set (fst (fst (script prov now inp c))))
    \<and> (\<forall>t s f k. InfoBuscando t s f k \<notin> set (fst (fst (script prov now inp c))))
    \<and> (\<forall>ev \<in> set (fst (fst (script prov now inp c))).
          ev \<noteq> SuccessEncontrada \<and> ev \<noteq> WarningSinCoincidencia
          \<and> (\<forall>msg. ev \<noteq> ErrorOpcion msg) \<and> (\<forall>rows. ev \<noteq> Dataframe rows))"
  using assms
  by (simp add: script_def Let_def get_ticker_object_def vencimiento_def)

theorem C10_no_expiration_dates_witness:
  "upper ''aapl'' \<noteq> []
   \<and> precio_actual \<lparr>history = (\<lambda>s p. Inr [150]), options = (\<lambda>s. Inr []),
                      option_chain = (\<lambda>s f. Inl (OtherException ''no chain''))\<rparr>
         (upper ''aapl'') = Inr 150
   \<and> options \<lparr>history = (\<lambda>s p. Inr [150]), options = (\<lambda>s. Inr []),
                option_chain = (\<lambda>s f. Inl (OtherException ''no chain''))\<rparr>
         (upper ''aapl'') = Inr []
   \<and> snd (fst (script \<lparr>history = (\<lambda>s p. Inr [150]), options = (\<lambda>s. Inr []),
                          option_chain = (\<lambda>s f. Inl (OtherException ''no chain''))\<rparr> 0
        \<lparr>ticker_text = ''aapl'', strike_input = None, strike_index = 10,
         fecha_index = 0, tipo_index = 0, button = True\<rparr>
        \<lparr>chain_cache = Map.empty, history_cache = Map.empty\<rparr>)) = Completed
   \<and> WarningSinOpciones ''AAPL''
       \<in> set (fst (fst (script \<lparr>history = (\<lambda>s p. Inr [150]), options = (\<lambda>s. Inr []),
                          option_chain = (\<lambda>s f. Inl (OtherException ''no chain''))\<rparr> 0
        \<lparr>ticker_text = ''aapl'', strike_input = None, strike_index = 10,
         fecha_index = 0, tipo_index = 0, button = True\<rparr>
        \<lparr>chain_cache = Map.empty, history_cache = Map.empty\<rparr>)))
   \<and> Query (OptionChain ''AAPL'' ''2025-01-17'')
       \<notin> set (fst (fst (script \<lparr>history = (\<lambda>s p. Inr [150]), options = (\<lambda>s. Inr []),
                          option_chain = (\<lambda>s f. Inl (OtherException ''no chain''))\<rparr> 0
        \<lparr>ticker_text = ''aapl'', strike_input = None, strike_index = 10,
         fecha_index = 0, tipo_index = 0, button = True\<rparr>
        \<lparr>chain_cache = Map.empty, history_cache = Map.empty\<rparr>)))"
proof -
  let ?prov = "\<lparr>history = (\<lambda>s p. Inr [150]), options = (\<lambda>s. Inr []),
                option_chain = (\<lambda>s f. Inl (OtherException ''no chain''))\<rparr>"
  let ?inp = "\<lparr>ticker_text = ''aapl'', strike_input = None, strike_index = 10,
               fecha_index = 0, tipo_index = 0, button = True\<rparr>"
  let ?c = "\<lparr>chain_cache = Map.empty, history_cache = Map.empty\<rparr>"
  have up: "upper ''aapl'' = ''AAPL''"
    by code_simp
  have h1: "upper (ticker_text ?inp) \<noteq> []"
    by (simp add: up)
  have h2: "precio_actual ?prov (upper (ticker_text ?inp)) = Inr 150"
    by (simp add: precio_actual_def)
  have h3: "options ?prov (upper (ticker_text ?inp)) = Inr []"
    by simp
  note inst = C10_no_expiration_dates [of ?inp ?prov 150, OF h1 h2 h3, of 0 ?c]
  from inst have a: "snd (fst (script ?prov 0 ?inp ?c)) = Completed"
    and b: "WarningSinOpciones (upper (ticker_text ?inp)) \<in> set (fst (fst (script ?prov 0 ?inp ?c)))"
    and d: "\<forall>s f. Query (OptionChain s f) \<notin> set (fst (fst (script ?prov 0 ?inp ?c)))"
    by blast+
  from b have b': "WarningSinOpciones ''AAPL'' \<in> set (fst (fst (script ?prov 0 ?inp ?c)))"
    by (simp only: up inputs.simps)
  from d have d': "Query (OptionChain ''AAPL'' ''2025-01-17'') \<notin> set (fst (fst (script ?prov 0 ?inp ?c)))"
    by blast
  from h1 have h1': "upper ''aapl'' \<noteq> []" by simp
  from h2 have h2': "precio_actual ?prov (upper ''aapl'') = Inr 150" by simp
  from h3 have h3': "options ?prov (upper ''aapl'') = Inr []" by simp
  show ?thesis
    using h1' h2' h3' a b' d' by blast
qed

end
